theory Spec2Isabelle
  imports Complex_Main
begin

section \<open>Python values used by the scraper\<close>

subsection \<open>Exceptions\<close>

text \<open>
  Every exception the modelled code can meet is a value; a computation that may raise
  returns \<open>exn + 'a\<close>, with \<open>Inl\<close> for the exception that escapes.
  \<^item> \<open>InvalidOperation\<close>: raised by \<^verbatim>\<open>decimal.Decimal\<close> on a malformed numeral;
  \<^item> \<open>ValueError\<close>: raised by \<^verbatim>\<open>int\<close> on a malformed numeral;
  \<^item> \<open>NoSuchElementException\<close>, \<open>StaleElementReferenceException\<close>,
    \<open>TimeoutException\<close>, \<open>WebDriverException\<close>: raised by the Selenium calls;
  \<^item> \<open>KeyError\<close>: raised by pandas when a data frame lacks the column asked for.
\<close>

datatype exn =
    InvalidOperation
  | ValueError
  | NoSuchElementException
  | StaleElementReferenceException
  | TimeoutException
  | WebDriverException
  | KeyError

subsection \<open>Strings\<close>

text \<open>
  A Python \<^verbatim>\<open>str\<close> is modelled as a \<^typ>\<open>string\<close>: one \<^typ>\<open>char\<close> per code point, for
  text whose code points are below 256. In that range the decimal digits matched by the
  regular expression class \<^verbatim>\<open>\d\<close> are \<^verbatim>\<open>0\<close> to \<^verbatim>\<open>9\<close>, and the characters removed by
  \<^verbatim>\<open>str.strip()\<close> are the code points 9 to 13, 28 to 32, 133 and 160.
\<close>

definition is_digit :: "char \<Rightarrow> bool" where
  "is_digit c = (c \<in> set ''0123456789'')"

definition is_space :: "char \<Rightarrow> bool" where
  "is_space c = (of_char c \<in> set [9, 10, 11, 12, 13, 28, 29, 30, 31, 32, 133, 160 :: nat])"

definition strip :: "string \<Rightarrow> string" where
  "strip s = rev (dropWhile is_space (rev (dropWhile is_space s)))"

text \<open>\<^verbatim>\<open>text.replace("\u00a0", " ")\<close> and \<^verbatim>\<open>text.replace(",", "")\<close>.\<close>

definition replace_nbsp :: "string \<Rightarrow> string" where
  "replace_nbsp s = map (\<lambda>c. if c = CHR 0xA0 then CHR '' '' else c) s"

definition remove_commas :: "string \<Rightarrow> string" where
  "remove_commas s = filter (\<lambda>c. c \<noteq> CHR '','') s"

text \<open>\<^verbatim>\<open>needle in haystack\<close> on strings.\<close>

fun starts_with :: "string \<Rightarrow> string \<Rightarrow> bool" where
  "starts_with s [] = True"
| "starts_with [] (p # ps) = False"
| "starts_with (c # cs) (p # ps) = (c = p \<and> starts_with cs ps)"

fun contains :: "string \<Rightarrow> string \<Rightarrow> bool" where
  "contains [] p = (p = [])"
| "contains (c # cs) p = (starts_with (c # cs) p \<or> contains cs p)"

subsection \<open>Floats\<close>

text \<open>
  A Python \<^verbatim>\<open>float\<close> is an IEEE 754 binary64 value: a rational of the form
  \<open>m * 2 ^ p\<close>, an infinity or a NaN. Negative zero is identified with zero.
  Comparisons follow IEEE: every comparison with NaN is false.
\<close>

datatype pyfloat = Finite rat | PosInf | NegInf | NaN

fun fl_lt :: "pyfloat \<Rightarrow> pyfloat \<Rightarrow> bool" where
  "fl_lt NaN y = False"
| "fl_lt x NaN = False"
| "fl_lt (Finite a) (Finite b) = (a < b)"
| "fl_lt (Finite a) PosInf = True"
| "fl_lt (Finite a) NegInf = False"
| "fl_lt PosInf y = False"
| "fl_lt NegInf (Finite b) = True"
| "fl_lt NegInf PosInf = True"
| "fl_lt NegInf NegInf = False"

fun fl_le :: "pyfloat \<Rightarrow> pyfloat \<Rightarrow> bool" where
  "fl_le NaN y = False"
| "fl_le x NaN = False"
| "fl_le (Finite a) (Finite b) = (a \<le> b)"
| "fl_le (Finite a) PosInf = True"
| "fl_le (Finite a) NegInf = False"
| "fl_le PosInf PosInf = True"
| "fl_le PosInf y = False"
| "fl_le NegInf y = True"

definition fl_neg :: "pyfloat \<Rightarrow> pyfloat" where
  "fl_neg x =
     (case x of Finite q \<Rightarrow> Finite (- q) | PosInf \<Rightarrow> NegInf | NegInf \<Rightarrow> PosInf
      | NaN \<Rightarrow> NaN)"

text \<open>
  Conversion of an exact decimal to the nearest binary64 value, ties to even, as
  \<^verbatim>\<open>float(Decimal(...))\<close> and float literals do. For a positive rational \<open>a / b\<close>:
  \<open>e\<close> is the exponent of its leading bit, \<open>p\<close> the exponent of the last place of the
  53-bit significand (never below the subnormal exponent \<open>-1074\<close>), \<open>m\<close> the significand
  rounded half to even. A result of \<open>2 ^ 1024\<close> or more overflows to infinity.
\<close>

function bit_length :: "int \<Rightarrow> int" where
  "bit_length n = (if n \<le> 0 then 0 else 1 + bit_length (n div 2))"
  by pat_completeness auto
termination
  by (relation "measure nat") auto

declare bit_length.simps [simp del]

definition pow2 :: "int \<Rightarrow> rat" where
  "pow2 k = (if 0 \<le> k then 2 ^ nat k else 1 / 2 ^ nat (- k))"

text \<open>\<open>scale_le b k a\<close> decides \<open>b * 2 ^ k \<le> a\<close> for an integer exponent \<open>k\<close>.\<close>

definition scale_le :: "int \<Rightarrow> int \<Rightarrow> int \<Rightarrow> bool" where
  "scale_le b k a = (if 0 \<le> k then b * 2 ^ nat k \<le> a else b \<le> a * 2 ^ nat (- k))"

definition floor_log2 :: "int \<Rightarrow> int \<Rightarrow> int" where
  "floor_log2 a b =
     (let d = bit_length a - bit_length b
      in if scale_le b d a then d else d - 1)"

text \<open>The integer nearest to \<open>n / d\<close> (for \<open>0 < d\<close>), ties to the even one.\<close>

definition round_half_even_div :: "int \<Rightarrow> int \<Rightarrow> int" where
  "round_half_even_div n d =
     (let f = n div d; r = n mod d
      in if 2 * r < d then f
         else if d < 2 * r then f + 1
         else if even f then f else f + 1)"

definition to_double_pos :: "int \<Rightarrow> int \<Rightarrow> pyfloat" where
  "to_double_pos a b =
     (let e = floor_log2 a b;
          p = max e (- 1022) - 52;
          m = (if 0 \<le> p then round_half_even_div a (b * 2 ^ nat p)
               else round_half_even_div (a * 2 ^ nat (- p)) b)
      in if 971 < p \<or> (p = 971 \<and> m = 2 ^ 53) then PosInf
         else Finite (of_int m * pow2 p))"

definition to_double :: "rat \<Rightarrow> pyfloat" where
  "to_double q =
     (let (a, b) = quotient_of q in
      if a = 0 then Finite 0
      else if 0 < a then to_double_pos a b
      else fl_neg (to_double_pos (- a) b))"

text \<open>
  \<^verbatim>\<open>round(x, 1)\<close> on a float: the exact value of \<open>x\<close> is rounded half to even to one
  decimal place and the decimal result converted back to the nearest float. Infinities
  and NaN are returned unchanged.
\<close>

definition round_half_even :: "rat \<Rightarrow> int" where
  "round_half_even q = (let (a, b) = quotient_of q in round_half_even_div a b)"

definition py_round1 :: "pyfloat \<Rightarrow> pyfloat" where
  "py_round1 x =
     (case x of
        Finite q \<Rightarrow> to_double (of_int (round_half_even (q * 10)) / 10)
      | PosInf \<Rightarrow> PosInf | NegInf \<Rightarrow> NegInf | NaN \<Rightarrow> NaN)"

subsection \<open>Numerals: \<^verbatim>\<open>Decimal\<close> and \<^verbatim>\<open>int\<close>\<close>

definition digit_val :: "char \<Rightarrow> int" where
  "digit_val c = int (of_char c) - 48"

definition digits_val :: "string \<Rightarrow> int" where
  "digits_val ds = foldl (\<lambda>acc c. 10 * acc + digit_val c) 0 ds"

text \<open>
  \<^verbatim>\<open>Decimal(s)\<close> on the strings the parsers pass to it, which contain only signs,
  digits, commas and points: an optional sign, then digits with at most one point and at
  least one digit. Anything else raises \<^verbatim>\<open>InvalidOperation\<close>; in particular a comma does.
  The value is exact.
\<close>

definition Decimal :: "string \<Rightarrow> exn + rat" where
  "Decimal s =
     (let (negative, r) =
            (case s of
               [] \<Rightarrow> (False, s)
             | c # cs \<Rightarrow> if c = CHR ''-'' then (True, cs)
                         else if c = CHR ''+'' then (False, cs) else (False, s));
          ip = takeWhile is_digit r;
          r1 = dropWhile is_digit r;
          fp = (case r1 of [] \<Rightarrow> [] | c # cs \<Rightarrow> cs);
          well_formed =
            (case r1 of
               [] \<Rightarrow> ip \<noteq> []
             | c # cs \<Rightarrow> c = CHR ''.'' \<and> list_all is_digit cs \<and> (ip \<noteq> [] \<or> cs \<noteq> []));
          magnitude = of_int (digits_val (ip @ fp)) / 10 ^ length fp
      in if well_formed then Inr (if negative then - magnitude else magnitude)
         else Inl InvalidOperation)"

text \<open>
  \<^verbatim>\<open>int(s)\<close> on the strings the parser passes to it, which are runs of digits; integers
  are unbounded.
\<close>

definition py_int :: "string \<Rightarrow> exn + int" where
  "py_int s = (if s \<noteq> [] \<and> list_all is_digit s then Inr (digits_val s) else Inl ValueError)"

section \<open>Parsers (\<^verbatim>\<open>scraping/parsers.py\<close>)\<close>

subsection \<open>The two regular expressions\<close>

text \<open>
  \<^verbatim>\<open>_money_re = re.compile(r"([-+]?\d[\d,]*\.?\d*)")\<close>

  \<open>money_match s\<close> is the match anchored at the start of \<open>s\<close>. After the optional sign a
  digit is required; if the sign is there and no digit follows, the alternative without
  the sign needs the sign character to be a digit and fails as well. Every later part
  may be empty, so the greedy choice is the match. \<open>money_search\<close> is \<^verbatim>\<open>search\<close>: the
  match at the leftmost position that has one.
\<close>

definition money_match :: "string \<Rightarrow> string option" where
  "money_match s =
     (let (sign, r) =
            (case s of
               [] \<Rightarrow> ([], s)
             | c # cs \<Rightarrow> if c = CHR ''-'' \<or> c = CHR ''+'' then ([c], cs) else ([], s))
      in case r of
           [] \<Rightarrow> None
         | d # r1 \<Rightarrow>
             if is_digit d then
               (let body = takeWhile (\<lambda>c. is_digit c \<or> c = CHR '','') r1;
                    r2 = dropWhile (\<lambda>c. is_digit c \<or> c = CHR '','') r1;
                    (dot, r3) =
                      (case r2 of
                         [] \<Rightarrow> ([], r2)
                       | c # cs \<Rightarrow> if c = CHR ''.'' then ([c], cs) else ([], r2));
                    frac = takeWhile is_digit r3
                in Some (sign @ [d] @ body @ dot @ frac))
             else None)"

fun money_search :: "string \<Rightarrow> string option" where
  "money_search [] = None"
| "money_search (c # cs) =
     (case money_match (c # cs) of Some g \<Rightarrow> Some g | None \<Rightarrow> money_search cs)"

text \<open>\<^verbatim>\<open>_int_re = re.compile(r"(\d+)")\<close>: the leftmost maximal run of digits.\<close>

fun int_search :: "string \<Rightarrow> string option" where
  "int_search [] = None"
| "int_search (c # cs) =
     (if is_digit c then Some (takeWhile is_digit (c # cs)) else int_search cs)"

subsection \<open>\<^verbatim>\<open>parse_price\<close>, \<^verbatim>\<open>parse_rating\<close>, \<^verbatim>\<open>parse_reviews_count\<close>\<close>

text \<open>
  \<^verbatim>\<open>
  def parse_price(text: str) -> Optional[float]:
      text = (text or "").strip()
      if not text:
          return None
      m = _money_re.search(text.replace("\u00a0", " "))
      if not m:
          return None
      raw = m.group(1).replace(",", "")
      try:
          return float(Decimal(raw))
      except (InvalidOperation, ValueError):
          return None
  \<close>
  The result is \<open>Inr None\<close> for Python's \<^verbatim>\<open>None\<close>, \<open>Inr (Some x)\<close> for a float, and
  \<open>Inl e\<close> if the exception \<open>e\<close> escapes the function.
\<close>

definition parse_price :: "string \<Rightarrow> exn + pyfloat option" where
  "parse_price text0 =
     (let text = strip text0 in
      if text = [] then Inr None
      else
        (case money_search (replace_nbsp text) of
           None \<Rightarrow> Inr None
         | Some g \<Rightarrow>
             (let raw = remove_commas g in
              case Decimal raw of
                Inr d \<Rightarrow> Inr (Some (to_double d))
              | Inl e \<Rightarrow> if e = InvalidOperation \<or> e = ValueError then Inr None else Inl e)))"

text \<open>
  \<^verbatim>\<open>
  def parse_rating(text: str) -> Optional[float]:
      text = (text or "").strip()
      if not text:
          return None
      m = _money_re.search(text)  # reuse numeric regex
      if not m:
          return None
      try:
          val = float(Decimal(m.group(1)))
      except (InvalidOperation, ValueError):
          return None
      # clamp to 0..5
      if val < 0:
          val = 0.0
      if val > 5:
          val = 5.0
      return round(val, 1)
  \<close>
\<close>

definition parse_rating :: "string \<Rightarrow> exn + pyfloat option" where
  "parse_rating text0 =
     (let text = strip text0 in
      if text = [] then Inr None
      else
        (case money_search text of
           None \<Rightarrow> Inr None
         | Some g \<Rightarrow>
             (case Decimal g of
                Inl e \<Rightarrow> if e = InvalidOperation \<or> e = ValueError then Inr None else Inl e
              | Inr d \<Rightarrow>
                  (let val = to_double d;
                       val1 = (if fl_lt val (Finite 0) then Finite 0 else val);
                       val2 = (if fl_lt (Finite 5) val1 then Finite 5 else val1)
                   in Inr (Some (py_round1 val2))))))"

text \<open>
  \<^verbatim>\<open>
  def parse_reviews_count(text: str) -> Optional[int]:
      text = (text or "").strip()
      if not text:
          return None
      m = _int_re.search(text.replace(",", ""))
      if not m:
          return None
      try:
          return int(m.group(1))
      except ValueError:
          return None
  \<close>
\<close>

definition parse_reviews_count :: "string \<Rightarrow> exn + int option" where
  "parse_reviews_count text0 =
     (let text = strip text0 in
      if text = [] then Inr None
      else
        (case int_search (remove_commas text) of
           None \<Rightarrow> Inr None
         | Some g \<Rightarrow>
             (case py_int g of
                Inr n \<Rightarrow> Inr (Some n)
              | Inl e \<Rightarrow> if e = ValueError then Inr None else Inl e)))"

section \<open>Field extraction (\<^verbatim>\<open>scraping/parsers.py\<close>)\<close>

subsection \<open>The browser's elements\<close>

text \<open>
  A Selenium \<^verbatim>\<open>WebElement\<close> is known to the code only through the calls it makes on it,
  and each call is a command sent to the browser that either answers or raises (a stale
  element, a lost session). An element found inside a card offers
  \<^item> \<open>el_text\<close>: the property \<^verbatim>\<open>el.text\<close>;
  \<^item> \<open>el_text_content\<close>: the answer of
    \<^verbatim>\<open>driver.execute_script("return arguments[0].textContent;", el)\<close>, \<open>None\<close> for
    JavaScript's \<^verbatim>\<open>null\<close>; the driver argument of the source functions is this field;
  \<^item> \<open>el_get_attribute\<close>: \<^verbatim>\<open>el.get_attribute(name)\<close>, \<open>None\<close> when the attribute is
    missing.

  A card offers \<^verbatim>\<open>card.get_attribute(name)\<close>, \<^verbatim>\<open>card.find_element(By.CSS_SELECTOR, s)\<close>
  (which raises \<^verbatim>\<open>NoSuchElementException\<close> when nothing matches) and
  \<^verbatim>\<open>card.find_elements(By.CSS_SELECTOR, s)\<close>.
\<close>

record element =
  el_text :: "exn + string"
  el_text_content :: "exn + string option"
  el_get_attribute :: "string \<Rightarrow> exn + string option"

record card =
  get_attribute :: "string \<Rightarrow> exn + string option"
  find_element :: "string \<Rightarrow> exn + element"
  find_elements :: "string \<Rightarrow> exn + element list"

subsection \<open>Records and selectors\<close>

text \<open>
  \<^verbatim>\<open>
  @dataclass
  class ProductRecord:
      sku: str
      name: str
      price_list: Optional[float]
      price_sale: Optional[float]
      rating: Optional[float]         # 0.0 - 5.0
      reviews_count: Optional[int]
      product_url: str
  \<close>
\<close>

record ProductRecord =
  sku :: string
  name :: string
  price_list :: "pyfloat option"
  price_sale :: "pyfloat option"
  rating :: "pyfloat option"
  reviews_count :: "int option"
  product_url :: string

record Selectors =
  product_card :: string
  product_url_selector :: string
  product_name :: string
  product_id :: string
  product_sku :: string
  product_sale_price :: string
  product_list_price :: string
  product_rating :: string
  product_reviews_count :: string
  bv_aria_source :: string
  next_page_button :: string

text \<open>
  The defaults of the \<^verbatim>\<open>Selectors\<close> dataclass. Its field \<^verbatim>\<open>product_url\<close>, which no
  function reads, is \<open>product_url_selector\<close> here.
\<close>

definition default_selectors :: Selectors where
  "default_selectors =
     \<lparr> product_card = ''div.cc-product-card'',
       product_url_selector = [],
       product_name = ''.cc-product-card-title .cc-text-overflow'',
       product_id = ''@data-oe-item-id'',
       product_sku = ''.cc-product-sku-container small span:nth-of-type(2)'',
       product_sale_price = ''@data-oe-item-sale-price'',
       product_list_price = ''@data-oe-item-list-price'',
       product_rating = ''.bv_averageRating_component_container .bv_text'',
       product_reviews_count = ''.bv_numReviews_component_container .bv_text'',
       bv_aria_source = ''a.bv_main_container'',
       next_page_button = ''span.cc-pagination-button.cc-next'' \<rparr>"

subsection \<open>Reading one field\<close>

text \<open>Sequencing of calls that may raise: the first exception ends the computation.\<close>

definition exn_bind :: "exn + 'a \<Rightarrow> ('a \<Rightarrow> exn + 'b) \<Rightarrow> exn + 'b" where
  "exn_bind m f = (case m of Inl e \<Rightarrow> Inl e | Inr x \<Rightarrow> f x)"

text \<open>\<^verbatim>\<open>(x or "")\<close> for an optional string.\<close>

definition or_empty :: "string option \<Rightarrow> string" where
  "or_empty v = (case v of None \<Rightarrow> [] | Some t \<Rightarrow> t)"

text \<open>
  \<^verbatim>\<open>
  def get_text_content(driver: WebDriver, el: WebElement) -> str:
      try:
          txt = driver.execute_script("return arguments[0].textContent;", el)
          return (txt or "").strip()
      except Exception:
          return el.text.strip()
  \<close>
  The handler's own read of \<^verbatim>\<open>el.text\<close> is outside any \<^verbatim>\<open>try\<close>.
\<close>

definition get_text_content :: "element \<Rightarrow> exn + string" where
  "get_text_content el =
     (case el_text_content el of
        Inr txt \<Rightarrow> Inr (strip (or_empty txt))
      | Inl e \<Rightarrow> exn_bind (el_text el) (\<lambda>t. Inr (strip t)))"

text \<open>
  \<^verbatim>\<open>
  def _safe_text(el: Optional[WebElement]) -> str:
      return el.text.strip() if el else ""

  def _find_optional(parent, by, selector) -> Optional[WebElement]:
      try:
          return parent.find_element(by, selector)
      except Exception:
          return None
  \<close>
  (the leading underscores are dropped). A \<^verbatim>\<open>WebElement\<close> is always truthy.
\<close>

definition safe_text :: "element option \<Rightarrow> exn + string" where
  "safe_text el =
     (case el of None \<Rightarrow> Inr [] | Some e \<Rightarrow> exn_bind (el_text e) (\<lambda>t. Inr (strip t)))"

definition find_optional :: "card \<Rightarrow> string \<Rightarrow> element option" where
  "find_optional parent selector =
     (case find_element parent selector of Inl e \<Rightarrow> None | Inr el \<Rightarrow> Some el)"

text \<open>
  \<^verbatim>\<open>
  def extract_value(card: WebElement, selector_or_attr: str) -> str:
      if not selector_or_attr:
          return ""
      if selector_or_attr.startswith("@"):
          attr_name = selector_or_attr[1:]
          return (card.get_attribute(attr_name) or "").strip()
      el = _find_optional(card, By.CSS_SELECTOR, selector_or_attr)
      return _safe_text(el)
  \<close>
\<close>

definition extract_value :: "card \<Rightarrow> string \<Rightarrow> exn + string" where
  "extract_value c selector_or_attr =
     (if selector_or_attr = [] then Inr []
      else if starts_with selector_or_attr ''@'' then
        (let attr_name = tl selector_or_attr
         in exn_bind (get_attribute c attr_name) (\<lambda>v. Inr (strip (or_empty v))))
      else safe_text (find_optional c selector_or_attr))"

subsection \<open>\<^verbatim>\<open>parse_product_card\<close>\<close>

text \<open>
  The product link, best effort:
  \<^verbatim>\<open>
      product_url = ""
      try:
          links = card.find_elements(By.CSS_SELECTOR, "a[href]")
          for link in links:
              href = (link.get_attribute("href") or "").strip()
              if "/product/" in href:
                  product_url = href
                  break
      except Exception:
          pass
  \<close>
  An exception anywhere in the block leaves \<^verbatim>\<open>product_url\<close> empty.
\<close>

fun first_product_link :: "element list \<Rightarrow> string" where
  "first_product_link [] = []"
| "first_product_link (link # links) =
     (case el_get_attribute link ''href'' of
        Inl e \<Rightarrow> []
      | Inr v \<Rightarrow>
          (let href = strip (or_empty v)
           in if contains href ''/product/'' then href else first_product_link links))"

definition find_product_url :: "card \<Rightarrow> string" where
  "find_product_url c =
     (case find_elements c ''a[href]'' of
        Inl e \<Rightarrow> []
      | Inr links \<Rightarrow> first_product_link links)"

text \<open>
  The rating and the review count, with the fallback on the \<^verbatim>\<open>aria-label\<close>:
  \<^verbatim>\<open>
      rating = parse_rating(extract_value(card, selectors.product_rating))
      reviews_count = parse_reviews_count(extract_value(card, selectors.product_reviews_count))
      if rating is None or reviews_count is None:
          a = _find_optional(card, By.CSS_SELECTOR, selectors.bv_aria_source)
          if a:
              aria = (a.get_attribute("aria-label") or "").strip()
              rating = rating if rating is not None else parse_rating(aria)
              reviews_count = reviews_count if reviews_count is not None else parse_reviews_count(aria)
  \<close>
\<close>

definition aria_fallback ::
  "card \<Rightarrow> Selectors \<Rightarrow> pyfloat option \<Rightarrow> int option \<Rightarrow> exn + (pyfloat option \<times> int option)"
where
  "aria_fallback c selectors rating0 reviews0 =
     (if rating0 = None \<or> reviews0 = None then
        (case find_optional c (bv_aria_source selectors) of
           None \<Rightarrow> Inr (rating0, reviews0)
         | Some a \<Rightarrow>
             exn_bind (el_get_attribute a ''aria-label'') (\<lambda>label.
             let aria = strip (or_empty label) in
             exn_bind (if rating0 \<noteq> None then Inr rating0 else parse_rating aria) (\<lambda>rating1.
             exn_bind (if reviews0 \<noteq> None then Inr reviews0 else parse_reviews_count aria)
               (\<lambda>reviews1.
             Inr (rating1, reviews1)))))
      else Inr (rating0, reviews0))"

definition rating_and_reviews ::
  "card \<Rightarrow> Selectors \<Rightarrow> exn + (pyfloat option \<times> int option)"
where
  "rating_and_reviews c selectors =
     exn_bind (extract_value c (product_rating selectors)) (\<lambda>rating_text.
     exn_bind (parse_rating rating_text) (\<lambda>rating0.
     exn_bind (extract_value c (product_reviews_count selectors)) (\<lambda>reviews_text.
     exn_bind (parse_reviews_count reviews_text) (\<lambda>reviews0.
     aria_fallback c selectors rating0 reviews0))))"

text \<open>
  The prices:
  \<^verbatim>\<open>
      sale_price_text = extract_value(card, selectors.product_sale_price)
      list_price_text = extract_value(card, selectors.product_list_price)
      price_list = parse_price(list_price_text) if list_price_text else None
      price_sale = parse_price(sale_price_text) if sale_price_text else None
      if price_sale is None:
          price_sale = price_list
  \<close>
  The result is the pair \<open>(price_list, price_sale)\<close>.
\<close>

definition prices :: "card \<Rightarrow> Selectors \<Rightarrow> exn + (pyfloat option \<times> pyfloat option)" where
  "prices c selectors =
     exn_bind (extract_value c (product_sale_price selectors)) (\<lambda>sale_price_text.
     exn_bind (extract_value c (product_list_price selectors)) (\<lambda>list_price_text.
     exn_bind (if list_price_text \<noteq> [] then parse_price list_price_text else Inr None)
       (\<lambda>price_list0.
     exn_bind (if sale_price_text \<noteq> [] then parse_price sale_price_text else Inr None)
       (\<lambda>price_sale0.
     Inr (price_list0, if price_sale0 = None then price_list0 else price_sale0)))))"

text \<open>
  The whole function, in the order of the source: name, SKU, prices, rating and
  reviews, product link, SKU sentinel, record.
  \<^verbatim>\<open>
  def parse_product_card(driver, card, selectors) -> ProductRecord:
      name_el = _find_optional(card, By.CSS_SELECTOR, selectors.product_name)
      name = get_text_content(driver, name_el) if name_el else ""
      sku = extract_value(card, selectors.product_sku)
      ...
      if not sku:
          sku = "UNKNOWN"
      return ProductRecord(sku=sku, name=name, price_list=price_list,
          price_sale=price_sale, rating=rating, reviews_count=reviews_count,
          product_url=product_url)
  \<close>
\<close>

definition parse_product_card :: "card \<Rightarrow> Selectors \<Rightarrow> exn + ProductRecord" where
  "parse_product_card c selectors =
     exn_bind
       (case find_optional c (product_name selectors) of
          Some name_el \<Rightarrow> get_text_content name_el
        | None \<Rightarrow> Inr []) (\<lambda>name0.
     exn_bind (extract_value c (product_sku selectors)) (\<lambda>sku0.
     exn_bind (prices c selectors) (\<lambda>(price_list0, price_sale0).
     exn_bind (rating_and_reviews c selectors) (\<lambda>(rating0, reviews_count0).
     let product_url0 = find_product_url c;
         sku1 = (if sku0 = [] then ''UNKNOWN'' else sku0)
     in Inr \<lparr> sku = sku1, name = name0, price_list = price_list0,
              price_sale = price_sale0, rating = rating0,
              reviews_count = reviews_count0, product_url = product_url0 \<rparr>))))"

section \<open>The crawl loop (\<^verbatim>\<open>scraping/run_scraper.py\<close>)\<close>

subsection \<open>The browser session\<close>

text \<open>
  The state of the browser session has some type \<open>'d\<close>; the loop sees it through the calls
  it makes, each of which answers or raises:
  \<^item> \<open>build_chrome_driver\<close>: \<^verbatim>\<open>build_chrome_driver(SeleniumConfig(headless=True))\<close>;
  \<^item> \<open>driver_get\<close>: \<^verbatim>\<open>driver.get(start_url)\<close>;
  \<^item> \<open>wait_until_present\<close>:
    \<^verbatim>\<open>wait.until(EC.presence_of_element_located((By.CSS_SELECTOR, s)))\<close>, which raises
    \<^verbatim>\<open>TimeoutException\<close> after 20 seconds without a match; the page may change while
    waiting, so the call returns the state it leaves;
  \<^item> \<open>driver_find_elements\<close>: \<^verbatim>\<open>driver.find_elements(By.CSS_SELECTOR, s)\<close>, the cards;
  \<^item> \<open>driver_find_element\<close>: \<^verbatim>\<open>driver.find_element(By.CSS_SELECTOR, s)\<close>, here the
    pagination button;
  \<^item> \<open>click_next\<close>: the block that scrolls the button into view, clicks it and sleeps;
    it returns the state after the click.
  Delays (\<^verbatim>\<open>time.sleep\<close>) are not modelled.
\<close>

record 'd webdriver =
  build_chrome_driver :: "exn + 'd"
  driver_get :: "'d \<Rightarrow> string \<Rightarrow> exn + 'd"
  wait_until_present :: "'d \<Rightarrow> string \<Rightarrow> exn + 'd"
  driver_find_elements :: "'d \<Rightarrow> string \<Rightarrow> exn + card list"
  driver_find_element :: "'d \<Rightarrow> string \<Rightarrow> exn + element"
  click_next :: "'d \<Rightarrow> element \<Rightarrow> exn + 'd"

text \<open>The lines the loop writes to its logger, in order.\<close>

datatype log_line =
    Opening string
  | Scraping_page int int
  | Found_product_cards nat
  | Failed_parsing_a_card exn
  | No_next_page_button
  | Pagination_ended

subsection \<open>The cards of one page\<close>

text \<open>
  \<^verbatim>\<open>
            for card in cards:
                try:
                    record = parse_product_card(driver, card, selectors)
                    # Basic sanity: require URL or name; keep SKU always
                    if record.name or record.product_url:
                        results.append(record)
                except Exception as e:
                    logger.warning("Failed parsing a card: %s", e)
  \<close>
  The function returns the list \<^verbatim>\<open>results\<close> and the log after the loop.
\<close>

fun scrape_cards ::
  "card list \<Rightarrow> Selectors \<Rightarrow> ProductRecord list \<Rightarrow> log_line list
    \<Rightarrow> ProductRecord list \<times> log_line list"
where
  "scrape_cards [] selectors results lg = (results, lg)"
| "scrape_cards (c # cards) selectors results lg =
     (case parse_product_card c selectors of
        Inr record \<Rightarrow>
          if name record \<noteq> [] \<or> product_url record \<noteq> []
          then scrape_cards cards selectors (results @ [record]) lg
          else scrape_cards cards selectors results lg
      | Inl e \<Rightarrow> scrape_cards cards selectors results (lg @ [Failed_parsing_a_card e]))"

text \<open>
  The records that extraction yields for the cards of a page, in card order, leaving out
  the cards on which it raises. This is what the loop above chooses from.
\<close>

fun extracted_records :: "card list \<Rightarrow> Selectors \<Rightarrow> ProductRecord list" where
  "extracted_records [] selectors = []"
| "extracted_records (c # cards) selectors =
     (case parse_product_card c selectors of
        Inr record \<Rightarrow> record # extracted_records cards selectors
      | Inl e \<Rightarrow> extracted_records cards selectors)"

subsection \<open>The pages\<close>

text \<open>
  \<^verbatim>\<open>
        for page in range(1, max_pages + 1):
            logger.info("Scraping page %d/%d", page, max_pages)
            wait.until(EC.presence_of_element_located((By.CSS_SELECTOR, selectors.product_card)))
            cards = driver.find_elements(By.CSS_SELECTOR, selectors.product_card)
            logger.info("Found %d product cards", len(cards))
            for card in cards: ...
            if page == 0:
                logger.info("No next page button found. Stopping.")
                break
            next_btn = None
            try:
                next_btn = driver.find_element(By.CSS_SELECTOR, selectors.next_page_button)
            except Exception:
                next_btn = None
            if not next_btn:
                logger.info("No next page button found. Stopping.")
                break
            try:
                driver.execute_script("arguments[0].scrollIntoView(true);", next_btn)
                time.sleep(0.2)
                next_btn.click()
                time.sleep(sleep_s)
            except Exception:
                logger.info("Pagination ended or failed to click next")
                break
        return results
  \<close>
  The \<^verbatim>\<open>for\<close> loop is a recursion over the page numbers still to visit. The result pairs
  what the function returns (\<open>Inr results\<close>) or raises (\<open>Inl e\<close>) with the log.
\<close>

fun scrape_pages ::
  "'d webdriver \<Rightarrow> Selectors \<Rightarrow> int \<Rightarrow> int list \<Rightarrow> 'd \<Rightarrow> ProductRecord list
    \<Rightarrow> log_line list \<Rightarrow> (exn + ProductRecord list) \<times> log_line list"
where
  "scrape_pages w selectors max_pages [] driver results lg = (Inr results, lg)"
| "scrape_pages w selectors max_pages (page # pages) driver results lg =
     (let lg1 = lg @ [Scraping_page page max_pages] in
      case wait_until_present w driver (product_card selectors) of
        Inl e \<Rightarrow> (Inl e, lg1)
      | Inr driver1 \<Rightarrow>
          (case driver_find_elements w driver1 (product_card selectors) of
             Inl e \<Rightarrow> (Inl e, lg1)
           | Inr cards \<Rightarrow>
               (let lg2 = lg1 @ [Found_product_cards (length cards)];
                    (results1, lg3) = scrape_cards cards selectors results lg2
                in if page = 0 then (Inr results1, lg3 @ [No_next_page_button])
                   else
                     (case driver_find_element w driver1 (next_page_button selectors) of
                        Inl e \<Rightarrow> (Inr results1, lg3 @ [No_next_page_button])
                      | Inr next_btn \<Rightarrow>
                          (case click_next w driver1 next_btn of
                             Inl e \<Rightarrow> (Inr results1, lg3 @ [Pagination_ended])
                           | Inr driver2 \<Rightarrow>
                               scrape_pages w selectors max_pages pages driver2 results1 lg3)))))"

text \<open>
  \<^verbatim>\<open>
  def scrape_listing(start_url, selectors, max_pages=5, sleep_s=1.0) -> List[ProductRecord]:
      driver = build_chrome_driver(SeleniumConfig(headless=True))
      wait = WebDriverWait(driver, 20)
      results = []
      try:
          logger.info("Opening: %s", start_url)
          driver.get(start_url)
          for page in range(1, max_pages + 1): ...
          return results
      finally:
          try: driver.quit()
          except Exception: pass
  \<close>
  \<^verbatim>\<open>range(1, max_pages + 1)\<close> is the list \<open>[1..max_pages]\<close>, empty when \<open>max_pages < 1\<close>.
\<close>

definition scrape_listing ::
  "'d webdriver \<Rightarrow> string \<Rightarrow> Selectors \<Rightarrow> int
    \<Rightarrow> (exn + ProductRecord list) \<times> log_line list"
where
  "scrape_listing w start_url selectors max_pages =
     (case build_chrome_driver w of
        Inl e \<Rightarrow> (Inl e, [])
      | Inr driver \<Rightarrow>
          (case driver_get w driver start_url of
             Inl e \<Rightarrow> (Inl e, [Opening start_url])
           | Inr driver1 \<Rightarrow>
               scrape_pages w selectors max_pages [1..max_pages] driver1 []
                 [Opening start_url]))"

text \<open>The number of pages a run has started on: its \<^verbatim>\<open>Scraping page\<close> log lines.\<close>

fun is_page_line :: "log_line \<Rightarrow> bool" where
  "is_page_line (Scraping_page page max_pages) = True"
| "is_page_line other = False"

definition pages_scraped :: "log_line list \<Rightarrow> nat" where
  "pages_scraped lg = length (filter is_page_line lg)"

section \<open>Validation (\<^verbatim>\<open>quality/validations.py\<close>)\<close>

subsection \<open>Data frames\<close>

text \<open>
  A pandas \<^verbatim>\<open>DataFrame\<close> of products is its list of column names and its rows, in index
  order. A text cell (\<^verbatim>\<open>name\<close>, \<^verbatim>\<open>sku\<close>, \<^verbatim>\<open>product_url\<close>) is a string or missing
  (\<open>None\<close>). A numeric cell is a number, an infinity, or \<open>NaN\<close>, which is how pandas
  stores a missing number; \<^verbatim>\<open>isna()\<close> and \<^verbatim>\<open>notna()\<close> test for it. The cells of a
  column that the frame does not have are never read.
\<close>

record row =
  col_sku :: "string option"
  col_name :: "string option"
  col_price_list :: pyfloat
  col_price_sale :: pyfloat
  col_rating :: pyfloat
  col_reviews_count :: pyfloat
  col_product_url :: "string option"

record DataFrame =
  columns :: "string list"
  rows :: "row list"

text \<open>
  \<^verbatim>\<open>
  @dataclass(frozen=True)
  class ValidationReport:
      total_rows: int
      valid_rows: int
      invalid_rows: int
      invalid_reasons: dict[str, int]
  \<close>
\<close>

record ValidationReport =
  total_rows :: int
  valid_rows :: int
  invalid_rows :: int
  invalid_reasons :: "string \<rightharpoonup> int"

subsection \<open>Boolean series\<close>

text \<open>
  A boolean \<^verbatim>\<open>Series\<close> over the rows is a list of booleans; \<^verbatim>\<open>|\<close>, \<^verbatim>\<open>&\<close> and \<^verbatim>\<open>~\<close> work
  element by element, \<^verbatim>\<open>mask.sum()\<close> counts the true entries and \<^verbatim>\<open>work.loc[mask]\<close>
  keeps the rows whose entry is true.
\<close>

definition mask_or :: "bool list \<Rightarrow> bool list \<Rightarrow> bool list" where
  "mask_or a b = map (\<lambda>(x, y). x \<or> y) (zip a b)"

definition mask_and :: "bool list \<Rightarrow> bool list \<Rightarrow> bool list" where
  "mask_and a b = map (\<lambda>(x, y). x \<and> y) (zip a b)"

definition mask_not :: "bool list \<Rightarrow> bool list" where
  "mask_not a = map (\<lambda>x. \<not> x) a"

definition mask_sum :: "bool list \<Rightarrow> int" where
  "mask_sum a = int (length (filter (\<lambda>x. x) a))"

definition loc :: "row list \<Rightarrow> bool list \<Rightarrow> row list" where
  "loc rs msk = map fst (filter snd (zip rs msk))"

text \<open>
  \<^verbatim>\<open>series.isna()\<close> on a text column, \<^verbatim>\<open>series.astype(str)\<close> (a missing cell becomes the
  text \<^verbatim>\<open>nan\<close>), and \<^verbatim>\<open>series.notna()\<close> on a numeric column.
\<close>

definition isna :: "string option \<Rightarrow> bool" where
  "isna v = (v = None)"

definition astype_str :: "string option \<Rightarrow> string" where
  "astype_str v = (case v of None \<Rightarrow> ''nan'' | Some s \<Rightarrow> s)"

definition notna :: "pyfloat \<Rightarrow> bool" where
  "notna x = (x \<noteq> NaN)"

subsection \<open>\<^verbatim>\<open>validate_products\<close>\<close>

text \<open>
  \<^verbatim>\<open>
    reasons = {}

    def add_reason(mask: pd.Series, reason: str):
        count = int(mask.sum())
        if count > 0:
            reasons[reason] = reasons.get(reason, 0) + count
  \<close>
  The dictionary is passed in and returned; \<open>dict_get0 d k\<close> is \<^verbatim>\<open>d.get(k, 0)\<close>.
\<close>

definition dict_get0 :: "(string \<rightharpoonup> int) \<Rightarrow> string \<Rightarrow> int" where
  "dict_get0 d k = (case d k of None \<Rightarrow> 0 | Some n \<Rightarrow> n)"

definition add_reason :: "bool list \<Rightarrow> string \<Rightarrow> (string \<rightharpoonup> int) \<Rightarrow> (string \<rightharpoonup> int)" where
  "add_reason msk reason reasons =
     (let count = mask_sum msk
      in if count > 0
         then reasons(reason \<mapsto> dict_get0 reasons reason + count)
         else reasons)"

text \<open>
  \<^verbatim>\<open>
  def validate_products(df):
      work = df.copy()
      name_invalid = work["name"].isna() | (work["name"].astype(str).str.strip() == "")
      add_reason(name_invalid, "invalid_name")
      sku_invalid = work["sku"].isna() | (work["sku"].astype(str).str.strip() == "")
      add_reason(sku_invalid, "invalid_sku")
      if "price_list" in work.columns:
          price_list_invalid = work["price_list"].notna() & (work["price_list"] <= 0)
          add_reason(price_list_invalid, "invalid_price_list")
      if "price_sale" in work.columns:
          price_sale_invalid = work["price_sale"].notna() & (work["price_sale"] <= 0)
          add_reason(price_sale_invalid, "invalid_price_sale")
      if "rating" in work.columns:
          rating_invalid = work["rating"].notna() & ((work["rating"] < 0) | (work["rating"] > 5))
          add_reason(rating_invalid, "invalid_rating")
      if "reviews_count" in work.columns:
          reviews_invalid = work["reviews_count"].notna() & (work["reviews_count"] < 0)
          add_reason(reviews_invalid, "invalid_reviews_count")
      invalid_mask = name_invalid | sku_invalid
      if "price_sale" in work.columns:
          invalid_mask = invalid_mask | price_sale_invalid
      if "price_list" in work.columns:
          invalid_mask = invalid_mask | price_list_invalid
      if "rating" in work.columns:
          invalid_mask = invalid_mask | rating_invalid
      if "reviews_count" in work.columns:
          invalid_mask = invalid_mask | reviews_invalid
      valid_df = work.loc[~invalid_mask].copy()
      report = ValidationReport(
          total_rows=int(len(work)),
          valid_rows=int(len(valid_df)),
          invalid_rows=int(invalid_mask.sum()),
          invalid_reasons=reasons,
      )
      return valid_df, report
  \<close>
  \<^verbatim>\<open>work["name"]\<close> and \<^verbatim>\<open>work["sku"]\<close> raise \<^verbatim>\<open>KeyError\<close> on a frame without the column.
\<close>

text \<open>
  The model names the parts of the function body: the six boolean series, the
  dictionary \<^verbatim>\<open>reasons\<close> after the six \<^verbatim>\<open>add_reason\<close> blocks, and the series
  \<^verbatim>\<open>invalid_mask\<close> after its four conditional updates.
\<close>

definition name_invalid :: "DataFrame \<Rightarrow> bool list" where
  "name_invalid work =
     mask_or (map (\<lambda>r. isna (col_name r)) (rows work))
             (map (\<lambda>r. strip (astype_str (col_name r)) = []) (rows work))"

definition sku_invalid :: "DataFrame \<Rightarrow> bool list" where
  "sku_invalid work =
     mask_or (map (\<lambda>r. isna (col_sku r)) (rows work))
             (map (\<lambda>r. strip (astype_str (col_sku r)) = []) (rows work))"

definition price_list_invalid :: "DataFrame \<Rightarrow> bool list" where
  "price_list_invalid work =
     mask_and (map (\<lambda>r. notna (col_price_list r)) (rows work))
              (map (\<lambda>r. fl_le (col_price_list r) (Finite 0)) (rows work))"

definition price_sale_invalid :: "DataFrame \<Rightarrow> bool list" where
  "price_sale_invalid work =
     mask_and (map (\<lambda>r. notna (col_price_sale r)) (rows work))
              (map (\<lambda>r. fl_le (col_price_sale r) (Finite 0)) (rows work))"

definition rating_invalid :: "DataFrame \<Rightarrow> bool list" where
  "rating_invalid work =
     mask_and (map (\<lambda>r. notna (col_rating r)) (rows work))
              (mask_or (map (\<lambda>r. fl_lt (col_rating r) (Finite 0)) (rows work))
                       (map (\<lambda>r. fl_lt (Finite 5) (col_rating r)) (rows work)))"

definition reviews_invalid :: "DataFrame \<Rightarrow> bool list" where
  "reviews_invalid work =
     mask_and (map (\<lambda>r. notna (col_reviews_count r)) (rows work))
              (map (\<lambda>r. fl_lt (col_reviews_count r) (Finite 0)) (rows work))"

definition collect_reasons :: "DataFrame \<Rightarrow> (string \<rightharpoonup> int)" where
  "collect_reasons work =
     (let reasons0 = Map.empty;
          reasons1 = add_reason (name_invalid work) ''invalid_name'' reasons0;
          reasons2 = add_reason (sku_invalid work) ''invalid_sku'' reasons1;
          reasons3 =
            (if ''price_list'' \<in> set (columns work)
             then add_reason (price_list_invalid work) ''invalid_price_list'' reasons2
             else reasons2);
          reasons4 =
            (if ''price_sale'' \<in> set (columns work)
             then add_reason (price_sale_invalid work) ''invalid_price_sale'' reasons3
             else reasons3);
          reasons5 =
            (if ''rating'' \<in> set (columns work)
             then add_reason (rating_invalid work) ''invalid_rating'' reasons4
             else reasons4);
          reasons6 =
            (if ''reviews_count'' \<in> set (columns work)
             then add_reason (reviews_invalid work) ''invalid_reviews_count'' reasons5
             else reasons5)
      in reasons6)"

definition invalid_mask :: "DataFrame \<Rightarrow> bool list" where
  "invalid_mask work =
     (let invalid_mask0 = mask_or (name_invalid work) (sku_invalid work);
          invalid_mask1 =
            (if ''price_sale'' \<in> set (columns work)
             then mask_or invalid_mask0 (price_sale_invalid work) else invalid_mask0);
          invalid_mask2 =
            (if ''price_list'' \<in> set (columns work)
             then mask_or invalid_mask1 (price_list_invalid work) else invalid_mask1);
          invalid_mask3 =
            (if ''rating'' \<in> set (columns work)
             then mask_or invalid_mask2 (rating_invalid work) else invalid_mask2);
          invalid_mask4 =
            (if ''reviews_count'' \<in> set (columns work)
             then mask_or invalid_mask3 (reviews_invalid work) else invalid_mask3)
      in invalid_mask4)"

definition validate_products :: "DataFrame \<Rightarrow> exn + (DataFrame \<times> ValidationReport)" where
  "validate_products df =
     (let work = df
      in if ''name'' \<notin> set (columns work) then Inl KeyError
         else if ''sku'' \<notin> set (columns work) then Inl KeyError
         else
           (let reasons = collect_reasons work;
                valid_df = work\<lparr> rows := loc (rows work) (mask_not (invalid_mask work)) \<rparr>;
                report =
                  \<lparr> total_rows = int (length (rows work)),
                    valid_rows = int (length (rows valid_df)),
                    invalid_rows = mask_sum (invalid_mask work),
                    invalid_reasons = reasons \<rparr>
            in Inr (valid_df, report)))"

subsection \<open>The rules, row by row\<close>

text \<open>
  The six rules as predicates on one row, to state what the vectorised code computes.
  \<open>violates cols reason r\<close>: row \<open>r\<close> of a frame with the columns \<open>cols\<close> triggers the rule
  named \<open>reason\<close>. A rule on a numeric column needs the column and a present value.
\<close>

definition invalid_text :: "string option \<Rightarrow> bool" where
  "invalid_text v = (case v of None \<Rightarrow> True | Some s \<Rightarrow> strip s = [])"

definition rule_names :: "string list" where
  "rule_names =
     [''invalid_name'', ''invalid_sku'', ''invalid_price_list'', ''invalid_price_sale'',
      ''invalid_rating'', ''invalid_reviews_count'']"

definition violates :: "string list \<Rightarrow> string \<Rightarrow> row \<Rightarrow> bool" where
  "violates cols reason r =
     (if reason = ''invalid_name'' then invalid_text (col_name r)
      else if reason = ''invalid_sku'' then invalid_text (col_sku r)
      else if reason = ''invalid_price_list'' then
        ''price_list'' \<in> set cols \<and> col_price_list r \<noteq> NaN
        \<and> fl_le (col_price_list r) (Finite 0)
      else if reason = ''invalid_price_sale'' then
        ''price_sale'' \<in> set cols \<and> col_price_sale r \<noteq> NaN
        \<and> fl_le (col_price_sale r) (Finite 0)
      else if reason = ''invalid_rating'' then
        ''rating'' \<in> set cols \<and> col_rating r \<noteq> NaN
        \<and> (fl_lt (col_rating r) (Finite 0) \<or> fl_lt (Finite 5) (col_rating r))
      else if reason = ''invalid_reviews_count'' then
        ''reviews_count'' \<in> set cols \<and> col_reviews_count r \<noteq> NaN
        \<and> fl_lt (col_reviews_count r) (Finite 0)
      else False)"

definition violates_any :: "string list \<Rightarrow> row \<Rightarrow> bool" where
  "violates_any cols r = list_ex (\<lambda>reason. violates cols reason r) rule_names"

text \<open>A counter of the report: a reason that is not a key has occurred zero times.\<close>

definition reason_count :: "ValidationReport \<Rightarrow> string \<Rightarrow> int" where
  "reason_count report reason = dict_get0 (invalid_reasons report) reason"

section \<open>Example inputs\<close>

text \<open>
  The column names of the scraped table, as \<^verbatim>\<open>save_to_csv\<close> writes them
  (\<^verbatim>\<open>fieldnames=["sku", "name", "price_list", "price_sale", "rating", "reviews_count",
  "product_url"]\<close>), and three rows: a clean one, one with a negative list price and a
  rating of 6, and one with an empty name.
\<close>

definition fieldnames :: "string list" where
  "fieldnames =
     [''sku'', ''name'', ''price_list'', ''price_sale'', ''rating'', ''reviews_count'',
      ''product_url'']"

definition clean_row :: row where
  "clean_row =
     \<lparr> col_sku = Some ''8507667'', col_name = Some ''Hex Key Set'',
       col_price_list = Finite 10, col_price_sale = Finite 8, col_rating = Finite (9 / 2),
       col_reviews_count = Finite 12,
       col_product_url = Some ''https://shop.example/product/8507667'' \<rparr>"

definition bad_price_and_rating_row :: row where
  "bad_price_and_rating_row =
     \<lparr> col_sku = Some ''8122301'', col_name = Some ''Bench Vise'',
       col_price_list = Finite (- 5), col_price_sale = Finite 8, col_rating = Finite 6,
       col_reviews_count = NaN,
       col_product_url = Some ''https://shop.example/product/8122301'' \<rparr>"

definition empty_name_row :: row where
  "empty_name_row =
     \<lparr> col_sku = Some ''ABC123'', col_name = Some [],
       col_price_list = Finite 10, col_price_sale = Finite 10, col_rating = NaN,
       col_reviews_count = NaN,
       col_product_url = Some ''https://shop.example/product/abc123'' \<rparr>"

text \<open>
  Cards. An attribute that is not listed is missing, a selector that is not listed matches
  nothing.
  \<^item> \<open>fallback_card\<close>: no rating or review element, a Bazaarvoice link whose
    \<^verbatim>\<open>aria-label\<close> is \<^verbatim>\<open>4.6 out of 5 stars, 812 reviews\<close>;
  \<^item> \<open>list_price_card\<close>: a list-price attribute \<^verbatim>\<open>$10.00\<close> and no sale-price attribute;
  \<^item> \<open>empty_name_card\<close>: a SKU \<^verbatim>\<open>ABC123\<close>, a product link, no name element;
  \<^item> \<open>stale_card\<close>: a card that has gone stale, so that reading an attribute raises.
\<close>

definition no_attribute :: "string \<Rightarrow> exn + string option" where
  "no_attribute a = Inr None"

definition no_element :: "string \<Rightarrow> exn + element" where
  "no_element s = Inl NoSuchElementException"

definition text_element :: "string \<Rightarrow> element" where
  "text_element t =
     \<lparr> el_text = Inr t, el_text_content = Inr (Some t), el_get_attribute = no_attribute \<rparr>"

definition link_element :: "string \<Rightarrow> string \<Rightarrow> element" where
  "link_element a v =
     \<lparr> el_text = Inr [], el_text_content = Inr (Some []),
       el_get_attribute = (\<lambda>n. if n = a then Inr (Some v) else Inr None) \<rparr>"

definition fallback_card :: card where
  "fallback_card =
     \<lparr> get_attribute = no_attribute,
       find_element =
         (\<lambda>s. if s = ''a.bv_main_container''
              then Inr (link_element ''aria-label'' ''4.6 out of 5 stars, 812 reviews'')
              else Inl NoSuchElementException),
       find_elements = (\<lambda>s. Inr []) \<rparr>"

definition list_price_card :: card where
  "list_price_card =
     \<lparr> get_attribute =
         (\<lambda>a. if a = ''data-oe-item-list-price'' then Inr (Some ''$10.00'') else Inr None),
       find_element = no_element,
       find_elements = (\<lambda>s. Inr []) \<rparr>"

definition empty_name_card :: card where
  "empty_name_card =
     \<lparr> get_attribute = no_attribute,
       find_element =
         (\<lambda>s. if s = ''.cc-product-sku-container small span:nth-of-type(2)''
              then Inr (text_element ''ABC123'')
              else Inl NoSuchElementException),
       find_elements =
         (\<lambda>s. if s = ''a[href]''
              then Inr [link_element ''href'' ''https://shop.example/product/abc123'']
              else Inr []) \<rparr>"

definition stale_card :: card where
  "stale_card =
     \<lparr> get_attribute = (\<lambda>a. Inl StaleElementReferenceException),
       find_element = no_element,
       find_elements = (\<lambda>s. Inr []) \<rparr>"

text \<open>
  A listing whose every page shows the card \<open>empty_name_card\<close> and always has a
  pagination button that works; the session state is the number of the page shown.
\<close>

definition endless_listing :: "nat webdriver" where
  "endless_listing =
     \<lparr> build_chrome_driver = Inr 0,
       driver_get = (\<lambda>d url. Inr 1),
       wait_until_present = (\<lambda>d s. Inr d),
       driver_find_elements = (\<lambda>d s. Inr [empty_name_card]),
       driver_find_element = (\<lambda>d s. Inr (text_element ''Next'')),
       click_next = (\<lambda>d btn. Inr (Suc d)) \<rparr>"

section \<open>Properties of the validator\<close>

subsection \<open>Boolean series are maps over the rows\<close>

lemma mask_or_map: "mask_or (map f xs) (map g xs) = map (\<lambda>x. f x \<or> g x) xs"
  by (induction xs) (simp_all add: mask_or_def)

lemma mask_and_map: "mask_and (map f xs) (map g xs) = map (\<lambda>x. f x \<and> g x) xs"
  by (induction xs) (simp_all add: mask_and_def)

lemma mask_not_map: "mask_not (map f xs) = map (\<lambda>x. \<not> f x) xs"
  by (simp add: mask_not_def)

lemma mask_sum_map: "mask_sum (map f xs) = int (length (filter f xs))"
  by (induction xs) (simp_all add: mask_sum_def)

lemma loc_map: "loc xs (map f xs) = filter f xs"
  by (induction xs) (simp_all add: loc_def)

lemma mask_or_if:
  "(if c then map (\<lambda>x. g x \<or> f x) xs else map g xs) = map (\<lambda>x. g x \<or> (c \<and> f x)) xs"
  by simp

lemma dict_get0_add_reason:
  "dict_get0 (add_reason (map f xs) k d) k' =
     dict_get0 d k' + (if k' = k then int (length (filter f xs)) else 0)"
  by (simp add: add_reason_def Let_def mask_sum_map dict_get0_def)

lemma dict_get0_if_add_reason:
  "dict_get0 (if c then add_reason (map f xs) k d else d) k' =
     dict_get0 d k' + (if c \<and> k' = k then int (length (filter f xs)) else 0)"
  by (simp add: dict_get0_add_reason)

lemma dict_get0_empty: "dict_get0 Map.empty k = 0"
  by (simp add: dict_get0_def)

lemma invalid_text_eq: "(isna v \<or> strip (astype_str v) = []) = invalid_text v"
  by (cases v) (simp_all add: isna_def astype_str_def invalid_text_def strip_def is_space_def)

lemma name_invalid_map: "name_invalid work = map (\<lambda>r. invalid_text (col_name r)) (rows work)"
  by (simp add: name_invalid_def mask_or_map invalid_text_eq)

lemma sku_invalid_map: "sku_invalid work = map (\<lambda>r. invalid_text (col_sku r)) (rows work)"
  by (simp add: sku_invalid_def mask_or_map invalid_text_eq)

lemma price_list_invalid_map:
  "price_list_invalid work =
     map (\<lambda>r. col_price_list r \<noteq> NaN \<and> fl_le (col_price_list r) (Finite 0)) (rows work)"
  by (simp add: price_list_invalid_def mask_and_map notna_def)

lemma price_sale_invalid_map:
  "price_sale_invalid work =
     map (\<lambda>r. col_price_sale r \<noteq> NaN \<and> fl_le (col_price_sale r) (Finite 0)) (rows work)"
  by (simp add: price_sale_invalid_def mask_and_map notna_def)

lemma rating_invalid_map:
  "rating_invalid work =
     map (\<lambda>r. col_rating r \<noteq> NaN
              \<and> (fl_lt (col_rating r) (Finite 0) \<or> fl_lt (Finite 5) (col_rating r)))
       (rows work)"
  by (simp add: rating_invalid_def mask_and_map mask_or_map notna_def)

lemma reviews_invalid_map:
  "reviews_invalid work =
     map (\<lambda>r. col_reviews_count r \<noteq> NaN \<and> fl_lt (col_reviews_count r) (Finite 0))
       (rows work)"
  by (simp add: reviews_invalid_def mask_and_map notna_def)

lemmas series_map =
  name_invalid_map sku_invalid_map price_list_invalid_map price_sale_invalid_map
  rating_invalid_map reviews_invalid_map

subsection \<open>The rules, one by one\<close>

lemma violates_fun:
  "violates cols ''invalid_name'' = (\<lambda>r. invalid_text (col_name r))"
  "violates cols ''invalid_sku'' = (\<lambda>r. invalid_text (col_sku r))"
  "violates cols ''invalid_price_list'' =
     (\<lambda>r. ''price_list'' \<in> set cols \<and> col_price_list r \<noteq> NaN
           \<and> fl_le (col_price_list r) (Finite 0))"
  "violates cols ''invalid_price_sale'' =
     (\<lambda>r. ''price_sale'' \<in> set cols \<and> col_price_sale r \<noteq> NaN
           \<and> fl_le (col_price_sale r) (Finite 0))"
  "violates cols ''invalid_rating'' =
     (\<lambda>r. ''rating'' \<in> set cols \<and> col_rating r \<noteq> NaN
           \<and> (fl_lt (col_rating r) (Finite 0) \<or> fl_lt (Finite 5) (col_rating r)))"
  "violates cols ''invalid_reviews_count'' =
     (\<lambda>r. ''reviews_count'' \<in> set cols \<and> col_reviews_count r \<noteq> NaN
           \<and> fl_lt (col_reviews_count r) (Finite 0))"
  by (rule ext, simp add: violates_def)+

lemma violates_other: "k \<notin> set rule_names \<Longrightarrow> violates cols k = (\<lambda>r. False)"
  by (rule ext) (simp add: violates_def rule_names_def)

lemma violates_any_eq:
  "violates_any cols r =
     (violates cols ''invalid_name'' r \<or> violates cols ''invalid_sku'' r
      \<or> violates cols ''invalid_price_list'' r \<or> violates cols ''invalid_price_sale'' r
      \<or> violates cols ''invalid_rating'' r \<or> violates cols ''invalid_reviews_count'' r)"
  by (simp add: violates_any_def rule_names_def)

lemma violates_imp_any: "violates cols k r \<Longrightarrow> violates_any cols r"
  by (cases "k \<in> set rule_names")
     (auto simp: violates_any_eq violates_other rule_names_def)

subsection \<open>What the function body computes\<close>

lemma invalid_mask_map: "invalid_mask work = map (violates_any (columns work)) (rows work)"
proof -
  have "invalid_mask work =
      map (\<lambda>r. ((((invalid_text (col_name r) \<or> invalid_text (col_sku r))
            \<or> (''price_sale'' \<in> set (columns work) \<and> col_price_sale r \<noteq> NaN
                 \<and> fl_le (col_price_sale r) (Finite 0)))
            \<or> (''price_list'' \<in> set (columns work) \<and> col_price_list r \<noteq> NaN
                 \<and> fl_le (col_price_list r) (Finite 0)))
            \<or> (''rating'' \<in> set (columns work) \<and> col_rating r \<noteq> NaN
                 \<and> (fl_lt (col_rating r) (Finite 0) \<or> fl_lt (Finite 5) (col_rating r))))
            \<or> (''reviews_count'' \<in> set (columns work) \<and> col_reviews_count r \<noteq> NaN
                 \<and> fl_lt (col_reviews_count r) (Finite 0))) (rows work)"
    unfolding invalid_mask_def Let_def series_map mask_or_map mask_or_if ..
  also have "\<dots> = map (violates_any (columns work)) (rows work)"
    by (rule map_cong[OF refl]) (simp add: violates_any_eq violates_fun; blast)
  finally show ?thesis .
qed

lemma collect_reasons_count:
  "dict_get0 (collect_reasons work) k =
     int (length (filter (violates (columns work) k) (rows work)))"
proof -
  have total: "dict_get0 (collect_reasons work) k =
      (if k = ''invalid_name''
       then int (length (filter (\<lambda>r. invalid_text (col_name r)) (rows work))) else 0)
    + (if k = ''invalid_sku''
       then int (length (filter (\<lambda>r. invalid_text (col_sku r)) (rows work))) else 0)
    + (if ''price_list'' \<in> set (columns work) \<and> k = ''invalid_price_list''
       then int (length (filter (\<lambda>r. col_price_list r \<noteq> NaN
              \<and> fl_le (col_price_list r) (Finite 0)) (rows work))) else 0)
    + (if ''price_sale'' \<in> set (columns work) \<and> k = ''invalid_price_sale''
       then int (length (filter (\<lambda>r. col_price_sale r \<noteq> NaN
              \<and> fl_le (col_price_sale r) (Finite 0)) (rows work))) else 0)
    + (if ''rating'' \<in> set (columns work) \<and> k = ''invalid_rating''
       then int (length (filter (\<lambda>r. col_rating r \<noteq> NaN
              \<and> (fl_lt (col_rating r) (Finite 0) \<or> fl_lt (Finite 5) (col_rating r)))
              (rows work))) else 0)
    + (if ''reviews_count'' \<in> set (columns work) \<and> k = ''invalid_reviews_count''
       then int (length (filter (\<lambda>r. col_reviews_count r \<noteq> NaN
              \<and> fl_lt (col_reviews_count r) (Finite 0)) (rows work))) else 0)"
    unfolding collect_reasons_def Let_def series_map
    by (simp only: dict_get0_if_add_reason dict_get0_add_reason dict_get0_empty add_0)
  consider "k = ''invalid_name''" | "k = ''invalid_sku''" | "k = ''invalid_price_list''"
    | "k = ''invalid_price_sale''" | "k = ''invalid_rating''"
    | "k = ''invalid_reviews_count''" | "k \<notin> set rule_names"
    by (auto simp: rule_names_def)
  then show ?thesis
  proof cases
    case 1 then show ?thesis unfolding total by (simp add: violates_fun)
  next
    case 2 then show ?thesis unfolding total by (simp add: violates_fun)
  next
    case 3 then show ?thesis unfolding total by (simp add: violates_fun)
  next
    case 4 then show ?thesis unfolding total by (simp add: violates_fun)
  next
    case 5 then show ?thesis unfolding total by (simp add: violates_fun)
  next
    case 6 then show ?thesis unfolding total by (simp add: violates_fun)
  next
    case 7
    then have "k \<noteq> ''invalid_name''" "k \<noteq> ''invalid_sku''" "k \<noteq> ''invalid_price_list''"
      "k \<noteq> ''invalid_price_sale''" "k \<noteq> ''invalid_rating''"
      "k \<noteq> ''invalid_reviews_count''"
      by (auto simp: rule_names_def)
    with 7 show ?thesis unfolding total by (simp add: violates_other)
  qed
qed

lemma validate_products_Inr:
  "validate_products df = Inr (valid_df, report) \<longleftrightarrow>
     ''name'' \<in> set (columns df) \<and> ''sku'' \<in> set (columns df)
     \<and> valid_df = df\<lparr> rows := filter (\<lambda>r. \<not> violates_any (columns df) r) (rows df) \<rparr>
     \<and> report =
         \<lparr> total_rows = int (length (rows df)),
           valid_rows = int (length (filter (\<lambda>r. \<not> violates_any (columns df) r) (rows df))),
           invalid_rows = int (length (filter (violates_any (columns df)) (rows df))),
           invalid_reasons = collect_reasons df \<rparr>"
  by (auto simp: validate_products_def Let_def invalid_mask_map mask_not_map loc_map
        mask_sum_map)

lemma validate_products_returns:
  "(\<exists>valid_df report. validate_products df = Inr (valid_df, report)) \<longleftrightarrow>
     ''name'' \<in> set (columns df) \<and> ''sku'' \<in> set (columns df)"
  by (simp add: validate_products_Inr)

lemma reason_count_validate:
  assumes "validate_products df = Inr (valid_df, report)"
  shows "reason_count report k = int (length (filter (violates (columns df) k) (rows df)))"
  using assms by (simp add: validate_products_Inr reason_count_def collect_reasons_count)

lemma length_filter_insert:
  "length (filter P (pre @ r # post)) = length (filter P (pre @ post)) + (if P r then 1 else 0)"
  by simp

lemma length_filter_partition:
  "int (length (filter (\<lambda>r. \<not> P r) xs)) + int (length (filter P xs)) = int (length xs)"
  using sum_length_filter_compl[of P xs] by simp

subsection \<open>The report and the valid set agree\<close>

text \<open>
  Claim C10. The function returns exactly on the frames that have the columns
  \<^verbatim>\<open>name\<close> and \<^verbatim>\<open>sku\<close>, and whatever it returns is consistent: \<^verbatim>\<open>total_rows\<close> is the
  number of input rows, \<^verbatim>\<open>valid_rows\<close> the number of rows of the returned frame,
  \<^verbatim>\<open>valid_rows + invalid_rows = total_rows\<close>, and the returned frame holds, in their
  original order, exactly the input rows that trigger no rule.
\<close>

theorem validate_products_report_consistent:
  "((\<exists>valid_df report. validate_products df = Inr (valid_df, report))
      \<longleftrightarrow> ''name'' \<in> set (columns df) \<and> ''sku'' \<in> set (columns df))
   \<and> (\<forall>valid_df report. validate_products df = Inr (valid_df, report) \<longrightarrow>
         total_rows report = int (length (rows df))
       \<and> valid_rows report = int (length (rows valid_df))
       \<and> valid_rows report + invalid_rows report = total_rows report
       \<and> rows valid_df = filter (\<lambda>r. \<not> violates_any (columns df) r) (rows df)
       \<and> columns valid_df = columns df)"
proof (intro conjI allI impI)
  show "(\<exists>valid_df report. validate_products df = Inr (valid_df, report))
      \<longleftrightarrow> ''name'' \<in> set (columns df) \<and> ''sku'' \<in> set (columns df)"
    by (rule validate_products_returns)
next
  fix valid_df report
  assume ret: "validate_products df = Inr (valid_df, report)"
  then show "total_rows report = int (length (rows df))"
    and "valid_rows report = int (length (rows valid_df))"
    and "rows valid_df = filter (\<lambda>r. \<not> violates_any (columns df) r) (rows df)"
    and "columns valid_df = columns df"
    by (simp_all add: validate_products_Inr)
  from ret show "valid_rows report + invalid_rows report = total_rows report"
    by (simp add: validate_products_Inr)
       (metis length_filter_partition of_nat_add)
qed

theorem validate_products_report_consistent_witness:
  "\<exists>valid_df report.
     validate_products \<lparr> columns = fieldnames,
                         rows = [clean_row, bad_price_and_rating_row, empty_name_row] \<rparr>
       = Inr (valid_df, report)
     \<and> total_rows report = 3 \<and> valid_rows report = 1 \<and> invalid_rows report = 2
     \<and> rows valid_df = [clean_row]"
proof -
  let ?df = "\<lparr> columns = fieldnames,
               rows = [clean_row, bad_price_and_rating_row, empty_name_row] \<rparr>"
  note c = validate_products_report_consistent[of ?df]
  have cols: "''name'' \<in> set (columns ?df) \<and> ''sku'' \<in> set (columns ?df)"
    by (simp add: fieldnames_def)
  with c obtain valid_df report where ret: "validate_products ?df = Inr (valid_df, report)"
    by blast
  have v1: "\<not> violates_any fieldnames clean_row"
    by (simp add: violates_any_eq violates_fun clean_row_def invalid_text_def strip_def
          is_space_def)
  have v2: "violates_any fieldnames bad_price_and_rating_row"
    by (simp add: violates_any_eq violates_fun bad_price_and_rating_row_def fieldnames_def)
  have v3: "violates_any fieldnames empty_name_row"
    by (simp add: violates_any_eq violates_fun empty_name_row_def invalid_text_def strip_def)
  from c ret have
    "total_rows report = int (length (rows ?df))"
    "valid_rows report = int (length (rows valid_df))"
    "valid_rows report + invalid_rows report = total_rows report"
    "rows valid_df = filter (\<lambda>r. \<not> violates_any (columns ?df) r) (rows ?df)"
    by blast+
  with v1 v2 v3 have "total_rows report = 3 \<and> valid_rows report = 1
      \<and> invalid_rows report = 2 \<and> rows valid_df = [clean_row]"
    by simp
  with ret show ?thesis by blast
qed

subsection \<open>Exclusion and the reason counters\<close>

lemma reason_count_insert:
  assumes "validate_products (df\<lparr> rows := pre @ r # post \<rparr>) = Inr (valid_df, report)"
    and "validate_products (df\<lparr> rows := pre @ post \<rparr>) = Inr (valid0, report0)"
  shows "reason_count report k =
           reason_count report0 k + (if violates (columns df) k r then 1 else 0)"
  using reason_count_validate[OF assms(1), of k] reason_count_validate[OF assms(2), of k]
  by simp

lemma invalid_rows_insert:
  assumes "validate_products (df\<lparr> rows := pre @ r # post \<rparr>) = Inr (valid_df, report)"
    and "validate_products (df\<lparr> rows := pre @ post \<rparr>) = Inr (valid0, report0)"
  shows "invalid_rows report =
           invalid_rows report0 + (if violates_any (columns df) r then 1 else 0)"
  using assms by (simp add: validate_products_Inr)

lemma valid_rows_insert_invalid:
  assumes "validate_products (df\<lparr> rows := pre @ r # post \<rparr>) = Inr (valid_df, report)"
    and "validate_products (df\<lparr> rows := pre @ post \<rparr>) = Inr (valid0, report0)"
    and "violates_any (columns df) r"
  shows "rows valid_df = rows valid0" and "r \<notin> set (rows valid_df)"
  using assms by (simp_all add: validate_products_Inr)

lemma validate_products_without_row:
  assumes "validate_products df = Inr (valid_df, report)"
  shows "\<exists>valid0 report0. validate_products (df\<lparr> rows := rs \<rparr>) = Inr (valid0, report0)"
  using assms validate_products_returns[of "df\<lparr> rows := rs \<rparr>"]
  by (simp add: validate_products_Inr)

text \<open>
  Claim C2. Whenever the validator returns, the valid set is the input without exactly
  the rows that trigger at least one rule, \<^verbatim>\<open>invalid_rows\<close> is the number of those rows
  (each counted once), and every reason counter is the number of rows that trigger that
  rule, whether or not another rule already excludes them. In particular a row with
  list price \<open>-5\<close> and rating \<open>6\<close> whose other fields are valid, in a frame with both
  columns, adds one to \<^verbatim>\<open>invalid_price_list\<close>, one to \<^verbatim>\<open>invalid_rating\<close>, nothing to any
  other counter and one to \<^verbatim>\<open>invalid_rows\<close>, compared with the same frame without the
  row, and it is not in the valid set.
\<close>

theorem validate_products_exclusion_and_counters:
  assumes "validate_products df = Inr (valid_df, report)"
  shows
    "rows valid_df = filter (\<lambda>r. \<not> violates_any (columns df) r) (rows df)
     \<and> invalid_rows report = int (length (filter (violates_any (columns df)) (rows df)))
     \<and> (\<forall>reason. reason_count report reason
            = int (length (filter (violates (columns df) reason) (rows df))))
     \<and> (\<forall>pre r post.
           rows df = pre @ r # post
           \<and> ''price_list'' \<in> set (columns df) \<and> ''rating'' \<in> set (columns df)
           \<and> col_price_list r = Finite (- 5) \<and> col_rating r = Finite 6
           \<and> \<not> invalid_text (col_name r) \<and> \<not> invalid_text (col_sku r)
           \<and> \<not> violates (columns df) ''invalid_price_sale'' r
           \<and> \<not> violates (columns df) ''invalid_reviews_count'' r
           \<longrightarrow>
           (\<exists>valid0 report0.
              validate_products (df\<lparr> rows := pre @ post \<rparr>) = Inr (valid0, report0)
              \<and> reason_count report ''invalid_price_list''
                  = reason_count report0 ''invalid_price_list'' + 1
              \<and> reason_count report ''invalid_rating''
                  = reason_count report0 ''invalid_rating'' + 1
              \<and> (\<forall>k. k \<noteq> ''invalid_price_list'' \<and> k \<noteq> ''invalid_rating''
                    \<longrightarrow> reason_count report k = reason_count report0 k)
              \<and> invalid_rows report = invalid_rows report0 + 1
              \<and> rows valid_df = rows valid0
              \<and> r \<notin> set (rows valid_df)))"
proof (intro conjI allI impI)
  from assms show "rows valid_df = filter (\<lambda>r. \<not> violates_any (columns df) r) (rows df)"
    and "invalid_rows report = int (length (filter (violates_any (columns df)) (rows df)))"
    by (simp_all add: validate_products_Inr)
next
  fix reason
  show "reason_count report reason
          = int (length (filter (violates (columns df) reason) (rows df)))"
    by (rule reason_count_validate[OF assms])
next
  fix pre r post
  assume h: "rows df = pre @ r # post
           \<and> ''price_list'' \<in> set (columns df) \<and> ''rating'' \<in> set (columns df)
           \<and> col_price_list r = Finite (- 5) \<and> col_rating r = Finite 6
           \<and> \<not> invalid_text (col_name r) \<and> \<not> invalid_text (col_sku r)
           \<and> \<not> violates (columns df) ''invalid_price_sale'' r
           \<and> \<not> violates (columns df) ''invalid_reviews_count'' r"
  then have df: "df = df\<lparr> rows := pre @ r # post \<rparr>"
    by simp
  from assms df have ret: "validate_products (df\<lparr> rows := pre @ r # post \<rparr>) = Inr (valid_df, report)"
    by simp
  obtain valid0 report0
    where ret0: "validate_products (df\<lparr> rows := pre @ post \<rparr>) = Inr (valid0, report0)"
    using validate_products_without_row[OF assms] by blast
  have price: "violates (columns df) ''invalid_price_list'' r"
    and rating: "violates (columns df) ''invalid_rating'' r"
    using h by (simp_all add: violates_fun)
  have others: "\<not> violates (columns df) k r"
    if ne: "k \<noteq> ''invalid_price_list'' \<and> k \<noteq> ''invalid_rating''" for k
  proof -
    consider "k = ''invalid_name''" | "k = ''invalid_sku''" | "k = ''invalid_price_sale''"
      | "k = ''invalid_reviews_count''" | "k \<notin> set rule_names"
      using ne by (auto simp: rule_names_def)
    then show ?thesis
    proof cases
      case 1 with h show ?thesis by (simp add: violates_fun)
    next
      case 2 with h show ?thesis by (simp add: violates_fun)
    next
      case 3 with h show ?thesis by simp
    next
      case 4 with h show ?thesis by simp
    next
      case 5 then show ?thesis by (simp add: violates_other)
    qed
  qed
  have any: "violates_any (columns df) r"
    using price by (rule violates_imp_any)
  have "reason_count report ''invalid_price_list''
          = reason_count report0 ''invalid_price_list'' + 1"
    using reason_count_insert[OF ret ret0, of "''invalid_price_list''"] price by simp
  moreover have "reason_count report ''invalid_rating''
          = reason_count report0 ''invalid_rating'' + 1"
    using reason_count_insert[OF ret ret0, of "''invalid_rating''"] rating by simp
  moreover have "\<forall>k. k \<noteq> ''invalid_price_list'' \<and> k \<noteq> ''invalid_rating''
                    \<longrightarrow> reason_count report k = reason_count report0 k"
    using reason_count_insert[OF ret ret0] others by simp
  moreover have "invalid_rows report = invalid_rows report0 + 1"
    using invalid_rows_insert[OF ret ret0] any by simp
  moreover have "rows valid_df = rows valid0" and "r \<notin> set (rows valid_df)"
    using valid_rows_insert_invalid[OF ret ret0 any] by simp_all
  ultimately show "\<exists>valid0 report0.
              validate_products (df\<lparr> rows := pre @ post \<rparr>) = Inr (valid0, report0)
              \<and> reason_count report ''invalid_price_list''
                  = reason_count report0 ''invalid_price_list'' + 1
              \<and> reason_count report ''invalid_rating''
                  = reason_count report0 ''invalid_rating'' + 1
              \<and> (\<forall>k. k \<noteq> ''invalid_price_list'' \<and> k \<noteq> ''invalid_rating''
                    \<longrightarrow> reason_count report k = reason_count report0 k)
              \<and> invalid_rows report = invalid_rows report0 + 1
              \<and> rows valid_df = rows valid0
              \<and> r \<notin> set (rows valid_df)"
    using ret0 by blast
qed

theorem validate_products_exclusion_and_counters_witness:
  "\<exists>valid_df report valid0 report0.
     validate_products \<lparr> columns = fieldnames,
                         rows = [clean_row, bad_price_and_rating_row, empty_name_row] \<rparr>
       = Inr (valid_df, report)
     \<and> validate_products \<lparr> columns = fieldnames, rows = [clean_row, empty_name_row] \<rparr>
       = Inr (valid0, report0)
     \<and> rows valid_df = [clean_row]
     \<and> invalid_rows report = 2 \<and> invalid_rows report0 = 1
     \<and> reason_count report ''invalid_price_list'' = 1
     \<and> reason_count report0 ''invalid_price_list'' = 0
     \<and> reason_count report ''invalid_rating'' = 1
     \<and> reason_count report0 ''invalid_rating'' = 0
     \<and> reason_count report ''invalid_name'' = 1
     \<and> reason_count report0 ''invalid_name'' = 1
     \<and> bad_price_and_rating_row \<notin> set (rows valid_df)"
proof -
  let ?df = "\<lparr> columns = fieldnames,
               rows = [clean_row, bad_price_and_rating_row, empty_name_row] \<rparr>"
  have "''name'' \<in> set (columns ?df) \<and> ''sku'' \<in> set (columns ?df)"
    by (simp add: fieldnames_def)
  then obtain valid_df report where ret: "validate_products ?df = Inr (valid_df, report)"
    using validate_products_returns[of ?df] by blast
  note c = validate_products_exclusion_and_counters[OF ret]
  have v1: "\<not> violates_any fieldnames clean_row"
    by (simp add: violates_any_eq violates_fun clean_row_def invalid_text_def strip_def
          is_space_def)
  have v2: "violates_any fieldnames bad_price_and_rating_row"
    by (simp add: violates_any_eq violates_fun bad_price_and_rating_row_def fieldnames_def)
  have v3: "violates_any fieldnames empty_name_row"
    by (simp add: violates_any_eq violates_fun empty_name_row_def invalid_text_def strip_def)
  have n1: "\<not> violates fieldnames ''invalid_name'' clean_row"
    and n2: "\<not> violates fieldnames ''invalid_name'' bad_price_and_rating_row"
    and n3: "violates fieldnames ''invalid_name'' empty_name_row"
    by (simp_all add: violates_fun clean_row_def bad_price_and_rating_row_def
          empty_name_row_def invalid_text_def strip_def is_space_def)
  have hyp: "rows ?df = [clean_row] @ bad_price_and_rating_row # [empty_name_row]
           \<and> ''price_list'' \<in> set (columns ?df) \<and> ''rating'' \<in> set (columns ?df)
           \<and> col_price_list bad_price_and_rating_row = Finite (- 5)
           \<and> col_rating bad_price_and_rating_row = Finite 6
           \<and> \<not> invalid_text (col_name bad_price_and_rating_row)
           \<and> \<not> invalid_text (col_sku bad_price_and_rating_row)
           \<and> \<not> violates (columns ?df) ''invalid_price_sale'' bad_price_and_rating_row
           \<and> \<not> violates (columns ?df) ''invalid_reviews_count'' bad_price_and_rating_row"
    by (simp add: fieldnames_def bad_price_and_rating_row_def invalid_text_def strip_def
          is_space_def violates_fun)
  note step = c[THEN conjunct2, THEN conjunct2, THEN conjunct2, rule_format,
      of "[clean_row]" bad_price_and_rating_row "[empty_name_row]", OF hyp]
  then obtain valid0 report0 where
    ret0: "validate_products (?df\<lparr> rows := [clean_row] @ [empty_name_row] \<rparr>)
             = Inr (valid0, report0)"
    and inc: "reason_count report ''invalid_price_list''
                = reason_count report0 ''invalid_price_list'' + 1"
      "reason_count report ''invalid_rating'' = reason_count report0 ''invalid_rating'' + 1"
      "invalid_rows report = invalid_rows report0 + 1"
      "bad_price_and_rating_row \<notin> set (rows valid_df)"
    and same: "\<forall>k. k \<noteq> ''invalid_price_list'' \<and> k \<noteq> ''invalid_rating''
                    \<longrightarrow> reason_count report k = reason_count report0 k"
    by blast
  from same have inc_name: "reason_count report ''invalid_name'' = reason_count report0 ''invalid_name''"
    by simp
  from c v1 v2 v3 n1 n2 n3 have tot: "rows valid_df = [clean_row]" "invalid_rows report = 2"
    "reason_count report ''invalid_name'' = 1"
    by simp_all
  have p: "reason_count report ''invalid_price_list'' = 1"
    "reason_count report ''invalid_rating'' = 1"
    using c by (simp_all add: violates_fun clean_row_def bad_price_and_rating_row_def
          empty_name_row_def fieldnames_def)
  have ret0': "validate_products \<lparr> columns = fieldnames, rows = [clean_row, empty_name_row] \<rparr>
       = Inr (valid0, report0)"
    using ret0 by simp
  have q: "reason_count report0 ''invalid_price_list'' = 0"
    "reason_count report0 ''invalid_rating'' = 0"
    "reason_count report0 ''invalid_name'' = 1"
    "invalid_rows report0 = 1"
    using inc inc_name tot p by linarith+
  show ?thesis
    using ret ret0' tot p q inc(4) by blast
qed

section \<open>Properties of the crawl loop\<close>

subsection \<open>The cards of one page\<close>

lemma scrape_cards_results:
  "fst (scrape_cards cards selectors results lg) =
     results @ filter (\<lambda>r. name r \<noteq> [] \<or> product_url r \<noteq> [])
                 (extracted_records cards selectors)"
  by (induction cards arbitrary: results lg) (auto split: sum.splits)

lemma pages_scraped_simps:
  "pages_scraped [] = 0"
  "pages_scraped (x # lg) = (if is_page_line x then 1 else 0) + pages_scraped lg"
  "pages_scraped (lg @ lg') = pages_scraped lg + pages_scraped lg'"
  by (simp_all add: pages_scraped_def)

lemma scrape_cards_pages:
  "scrape_cards cards selectors results lg = (results1, lg1)
     \<Longrightarrow> pages_scraped lg1 = pages_scraped lg"
  by (induction cards arbitrary: results lg)
     (auto simp: pages_scraped_simps split: sum.splits if_splits)

lemma parse_empty_name_card:
  "parse_product_card empty_name_card default_selectors =
     Inr \<lparr> sku = ''ABC123'', name = [], price_list = None, price_sale = None,
           rating = None, reviews_count = None,
           product_url = ''https://shop.example/product/abc123'' \<rparr>"
  by code_simp

subsection \<open>The pages\<close>

lemma scrape_pages_cap:
  "pages_scraped (snd (scrape_pages w selectors max_pages pages driver results lg))
     \<le> pages_scraped lg + length pages"
proof (induction pages arbitrary: driver results lg)
  case Nil
  then show ?case by simp
next
  case (Cons page pages)
  have ih: "pages_scraped (snd (scrape_pages w selectors max_pages pages d r l))
      \<le> Suc (pages_scraped lg + length pages)"
    if "pages_scraped l = Suc (pages_scraped lg)" for d r l
    using Cons.IH[of d r l] that by simp
  show ?case
    by (auto simp: Let_def pages_scraped_simps ih
          split: sum.splits prod.splits dest!: scrape_cards_pages)
qed

lemma scrape_pages_exact:
  assumes "\<forall>d s. \<exists>d'. wait_until_present w d s = Inr d'"
    and "\<forall>d s. \<exists>cards. driver_find_elements w d s = Inr cards"
    and "\<forall>d s. \<exists>btn. driver_find_element w d s = Inr btn"
    and "\<forall>d btn. \<exists>d'. click_next w d btn = Inr d'"
    and "0 \<notin> set pages"
  shows "pages_scraped (snd (scrape_pages w selectors max_pages pages driver results lg))
     = pages_scraped lg + length pages"
  using assms(5)
proof (induction pages arbitrary: driver results lg)
  case Nil
  then show ?case by simp
next
  case (Cons page pages)
  obtain d1 where d1: "wait_until_present w driver (product_card selectors) = Inr d1"
    using assms(1) by blast
  obtain cards where cards: "driver_find_elements w d1 (product_card selectors) = Inr cards"
    using assms(2) by blast
  obtain btn where btn: "driver_find_element w d1 (next_page_button selectors) = Inr btn"
    using assms(3) by blast
  obtain d2 where d2: "click_next w d1 btn = Inr d2"
    using assms(4) by blast
  obtain r1 l3 where sc: "scrape_cards cards selectors results
      ((lg @ [Scraping_page page max_pages]) @ [Found_product_cards (length cards)]) = (r1, l3)"
    by (cases "scrape_cards cards selectors results
      ((lg @ [Scraping_page page max_pages]) @ [Found_product_cards (length cards)])") blast
  have l3: "pages_scraped l3 = pages_scraped lg + 1"
    using scrape_cards_pages[OF sc] by (simp add: pages_scraped_simps)
  have "page \<noteq> 0" using Cons.prems by auto
  then have "scrape_pages w selectors max_pages (page # pages) driver results lg
      = scrape_pages w selectors max_pages pages d2 r1 l3"
    using d1 cards btn d2 sc by (simp add: Let_def)
  moreover have "0 \<notin> set pages" using Cons.prems by simp
  ultimately show ?case
    using Cons.IH[of d2 r1 l3] l3 by simp
qed

text \<open>One page: what is returned does not depend on the pagination button.\<close>

lemma scrape_pages_single:
  assumes "wait_until_present w driver (product_card selectors) = Inr driver1"
    and "driver_find_elements w driver1 (product_card selectors) = Inr cards"
  shows "fst (scrape_pages w selectors max_pages [page] driver results lg)
     = Inr (fst (scrape_cards cards selectors results
         ((lg @ [Scraping_page page max_pages]) @ [Found_product_cards (length cards)])))"
  using assms by (auto simp: Let_def split: sum.splits prod.splits)

text \<open>
  Claim C5. A run never starts on more pages than \<^verbatim>\<open>max_pages\<close>, whatever the browser
  answers. When no call raises and the pagination button is always present and
  clickable, it starts on exactly \<^verbatim>\<open>max_pages\<close> pages and stops. With a cap of 1 and a
  first page that loads, the run scrapes one page, and it returns the accepted records
  of that page's cards whatever the search for the button and the click do.
\<close>

theorem scrape_listing_page_cap:
  "pages_scraped (snd (scrape_listing w start_url selectors max_pages)) \<le> nat max_pages
   \<and> ((\<exists>d. build_chrome_driver w = Inr d)
        \<and> (\<forall>d u. \<exists>d'. driver_get w d u = Inr d')
        \<and> (\<forall>d s. \<exists>d'. wait_until_present w d s = Inr d')
        \<and> (\<forall>d s. \<exists>cards. driver_find_elements w d s = Inr cards)
        \<and> (\<forall>d s. \<exists>btn. driver_find_element w d s = Inr btn)
        \<and> (\<forall>d btn. \<exists>d'. click_next w d btn = Inr d')
       \<longrightarrow> pages_scraped (snd (scrape_listing w start_url selectors max_pages))
             = nat max_pages)
   \<and> (\<forall>driver0 driver1 driver2 cards.
         build_chrome_driver w = Inr driver0
         \<and> driver_get w driver0 start_url = Inr driver1
         \<and> wait_until_present w driver1 (product_card selectors) = Inr driver2
         \<and> driver_find_elements w driver2 (product_card selectors) = Inr cards
        \<longrightarrow> fst (scrape_listing w start_url selectors 1)
              = Inr (filter (\<lambda>r. name r \<noteq> [] \<or> product_url r \<noteq> [])
                       (extracted_records cards selectors))
            \<and> pages_scraped (snd (scrape_listing w start_url selectors 1)) = 1)"
proof (intro conjI allI impI)
  show "pages_scraped (snd (scrape_listing w start_url selectors max_pages)) \<le> nat max_pages"
    using scrape_pages_cap[of w selectors max_pages "[1..max_pages]" _ "[]" "[Opening start_url]"]
    by (auto simp: scrape_listing_def pages_scraped_simps split: sum.splits)
next
  assume ok: "(\<exists>d. build_chrome_driver w = Inr d)
        \<and> (\<forall>d u. \<exists>d'. driver_get w d u = Inr d')
        \<and> (\<forall>d s. \<exists>d'. wait_until_present w d s = Inr d')
        \<and> (\<forall>d s. \<exists>cards. driver_find_elements w d s = Inr cards)
        \<and> (\<forall>d s. \<exists>btn. driver_find_element w d s = Inr btn)
        \<and> (\<forall>d btn. \<exists>d'. click_next w d btn = Inr d')"
  then obtain d0 d1 where d0: "build_chrome_driver w = Inr d0"
    and d1: "driver_get w d0 start_url = Inr d1"
    by blast
  have "pages_scraped (snd (scrape_pages w selectors max_pages [1..max_pages] d1 []
          [Opening start_url])) = pages_scraped [Opening start_url] + length [1..max_pages]"
    using ok by (intro scrape_pages_exact) auto
  then show "pages_scraped (snd (scrape_listing w start_url selectors max_pages))
      = nat max_pages"
    using d0 d1 by (simp add: scrape_listing_def pages_scraped_simps)
next
  fix driver0 driver1 driver2 cards
  assume h: "build_chrome_driver w = Inr driver0
         \<and> driver_get w driver0 start_url = Inr driver1
         \<and> wait_until_present w driver1 (product_card selectors) = Inr driver2
         \<and> driver_find_elements w driver2 (product_card selectors) = Inr cards"
  have one: "[1..1] = [1::int]"
    by (simp add: upto.simps)
  have run: "scrape_listing w start_url selectors 1
      = scrape_pages w selectors 1 [1] driver1 [] [Opening start_url]"
    using h by (simp add: scrape_listing_def one)
  have "fst (scrape_pages w selectors 1 [1] driver1 [] [Opening start_url])
      = Inr (fst (scrape_cards cards selectors []
          (([Opening start_url] @ [Scraping_page 1 1]) @ [Found_product_cards (length cards)])))"
    using h by (intro scrape_pages_single[where ?driver1.0 = driver2]) simp_all
  then show "fst (scrape_listing w start_url selectors 1)
      = Inr (filter (\<lambda>r. name r \<noteq> [] \<or> product_url r \<noteq> [])
               (extracted_records cards selectors))"
    unfolding run by (simp only: scrape_cards_results append_Nil)
  have "pages_scraped (snd (scrape_pages w selectors 1 [1] driver1 [] [Opening start_url])) \<le> 1"
    using scrape_pages_cap[of w selectors 1 "[1]" driver1 "[]" "[Opening start_url]"]
    by (simp add: pages_scraped_simps)
  moreover have "1 \<le> pages_scraped (snd (scrape_pages w selectors 1 [1] driver1 []
      [Opening start_url]))"
    using h
    by (auto simp: Let_def pages_scraped_simps split: sum.splits prod.splits
          dest!: scrape_cards_pages)
  ultimately show "pages_scraped (snd (scrape_listing w start_url selectors 1)) = 1"
    by (simp add: run)
qed

theorem scrape_listing_page_cap_witness:
  "pages_scraped (snd (scrape_listing endless_listing ''https://shop.example/sale''
       default_selectors 3)) = 3
   \<and> pages_scraped (snd (scrape_listing endless_listing ''https://shop.example/sale''
       default_selectors 1)) = 1
   \<and> fst (scrape_listing endless_listing ''https://shop.example/sale'' default_selectors 1)
       = Inr [\<lparr> sku = ''ABC123'', name = [], price_list = None, price_sale = None,
                 rating = None, reviews_count = None,
                 product_url = ''https://shop.example/product/abc123'' \<rparr>]"
proof -
  note c3 = scrape_listing_page_cap[of endless_listing "''https://shop.example/sale''"
      default_selectors 3]
  note c1 = scrape_listing_page_cap[of endless_listing "''https://shop.example/sale''"
      default_selectors 1]
  have ok: "(\<exists>d. build_chrome_driver endless_listing = Inr d)
        \<and> (\<forall>d u. \<exists>d'. driver_get endless_listing d u = Inr d')
        \<and> (\<forall>d s. \<exists>d'. wait_until_present endless_listing d s = Inr d')
        \<and> (\<forall>d s. \<exists>cards. driver_find_elements endless_listing d s = Inr cards)
        \<and> (\<forall>d s. \<exists>btn. driver_find_element endless_listing d s = Inr btn)
        \<and> (\<forall>d btn. \<exists>d'. click_next endless_listing d btn = Inr d')"
    by (simp add: endless_listing_def)
  have first: "build_chrome_driver endless_listing = Inr 0
         \<and> driver_get endless_listing 0 ''https://shop.example/sale'' = Inr 1
         \<and> wait_until_present endless_listing 1 (product_card default_selectors) = Inr 1
         \<and> driver_find_elements endless_listing 1 (product_card default_selectors)
             = Inr [empty_name_card]"
    by (simp add: endless_listing_def)
  from c3 ok have "pages_scraped (snd (scrape_listing endless_listing
      ''https://shop.example/sale'' default_selectors 3)) = 3"
    by simp
  moreover from c1 first have
    "fst (scrape_listing endless_listing ''https://shop.example/sale'' default_selectors 1)
       = Inr (filter (\<lambda>r. name r \<noteq> [] \<or> product_url r \<noteq> [])
                (extracted_records [empty_name_card] default_selectors))
     \<and> pages_scraped (snd (scrape_listing endless_listing ''https://shop.example/sale''
          default_selectors 1)) = 1"
    by blast
  ultimately show ?thesis
    by (simp add: parse_empty_name_card)
qed

subsection \<open>The acceptance filter and the name rule\<close>



section \<open>Properties of the parsers\<close>

subsection \<open>No exception escapes a parser\<close>

lemma Decimal_raises: "Decimal s = Inl e \<Longrightarrow> e = InvalidOperation"
  by (auto simp: Decimal_def Let_def split: list.splits if_splits prod.splits)

lemma py_int_raises: "py_int s = Inl e \<Longrightarrow> e = ValueError"
  by (auto simp: py_int_def split: if_splits)

lemma parse_price_total: "\<exists>r. parse_price s = Inr r"
  by (auto simp: parse_price_def Let_def split: option.splits sum.splits dest: Decimal_raises)

lemma parse_rating_total: "\<exists>r. parse_rating s = Inr r"
  by (auto simp: parse_rating_def Let_def split: option.splits sum.splits dest: Decimal_raises)

lemma parse_reviews_count_total: "\<exists>r. parse_reviews_count s = Inr r"
  by (auto simp: parse_reviews_count_def Let_def split: option.splits sum.splits
        dest: py_int_raises)

subsection \<open>Text without a digit\<close>

lemma money_match_no_digit:
  "list_all (\<lambda>c. \<not> is_digit c) s \<Longrightarrow> money_match s = None"
  by (auto simp: money_match_def Let_def split: list.splits)

lemma money_search_no_digit:
  "list_all (\<lambda>c. \<not> is_digit c) s \<Longrightarrow> money_search s = None"
  by (induction s) (simp_all add: money_match_no_digit)

lemma int_search_no_digit:
  "list_all (\<lambda>c. \<not> is_digit c) s \<Longrightarrow> int_search s = None"
  by (induction s) simp_all

lemma strip_subset: "set (strip s) \<subseteq> set s"
  unfolding strip_def
  by (metis set_rev set_dropWhileD subsetI)

lemma strip_no_digit:
  "list_all (\<lambda>c. \<not> is_digit c) s \<Longrightarrow> list_all (\<lambda>c. \<not> is_digit c) (strip s)"
  using strip_subset[of s] by (auto simp: list_all_iff)

lemma replace_nbsp_no_digit:
  "list_all (\<lambda>c. \<not> is_digit c) s \<Longrightarrow> list_all (\<lambda>c. \<not> is_digit c) (replace_nbsp s)"
  by (induction s) (simp_all add: replace_nbsp_def is_digit_def)

lemma remove_commas_no_digit:
  "list_all (\<lambda>c. \<not> is_digit c) s \<Longrightarrow> list_all (\<lambda>c. \<not> is_digit c) (remove_commas s)"
  by (induction s) (simp_all add: remove_commas_def)

lemma parse_price_no_digit:
  "list_all (\<lambda>c. \<not> is_digit c) s \<Longrightarrow> parse_price s = Inr None"
  by (simp add: parse_price_def Let_def money_search_no_digit replace_nbsp_no_digit
        strip_no_digit)

lemma parse_rating_no_digit:
  "list_all (\<lambda>c. \<not> is_digit c) s \<Longrightarrow> parse_rating s = Inr None"
  by (simp add: parse_rating_def Let_def money_search_no_digit strip_no_digit)

lemma parse_reviews_count_no_digit:
  "list_all (\<lambda>c. \<not> is_digit c) s \<Longrightarrow> parse_reviews_count s = Inr None"
  by (simp add: parse_reviews_count_def Let_def int_search_no_digit remove_commas_no_digit
        strip_no_digit)

text \<open>
  Claim C8. Each of the three parsers is a function of its string alone and returns on
  every string: no exception escapes (the only exceptions raised inside, by \<^verbatim>\<open>Decimal\<close>
  and \<^verbatim>\<open>int\<close>, are the ones the handlers catch). On a string without a digit each
  returns \<^verbatim>\<open>None\<close>.
\<close>

theorem parsers_total_and_none_without_digit:
  "(\<exists>r. parse_price s = Inr r) \<and> (\<exists>r. parse_rating s = Inr r)
   \<and> (\<exists>r. parse_reviews_count s = Inr r)
   \<and> (list_all (\<lambda>c. \<not> is_digit c) s \<longrightarrow>
        parse_price s = Inr None \<and> parse_rating s = Inr None
        \<and> parse_reviews_count s = Inr None)"
  by (simp add: parse_price_total parse_rating_total parse_reviews_count_total
        parse_price_no_digit parse_rating_no_digit parse_reviews_count_no_digit)

theorem parsers_total_and_none_without_digit_witness:
  "parse_price ''call for price'' = Inr None
   \<and> parse_rating ''call for price'' = Inr None
   \<and> parse_reviews_count ''call for price'' = Inr None"
proof -
  have "list_all (\<lambda>c. \<not> is_digit c) ''call for price''"
    by (simp add: is_digit_def)
  with parsers_total_and_none_without_digit[of "''call for price''"] show ?thesis
    by blast
qed

section \<open>The range of a parsed rating\<close>

subsection \<open>Rounding\<close>

lemma round_half_even_div_lower:
  assumes "0 < d" and "k * d \<le> n"
  shows "k \<le> round_half_even_div n d"
proof -
  have "k * d div d \<le> n div d"
    using assms by (intro zdiv_mono1) simp_all
  then have "k \<le> n div d"
    using assms(1) by simp
  then show ?thesis
    by (auto simp: round_half_even_div_def Let_def)
qed

lemma round_half_even_div_upper:
  assumes "0 < d" and "n \<le> k * d"
  shows "round_half_even_div n d \<le> k"
proof -
  have "n div d \<le> k * d div d"
    using assms by (intro zdiv_mono1) simp_all
  then have f: "n div d \<le> k"
    using assms(1) by simp
  have "n div d < k" if "0 < n mod d"
  proof (rule ccontr)
    assume "\<not> n div d < k"
    with f have "n div d = k" by simp
    then have "n = k * d + n mod d"
      by (metis mult.commute mult_div_mod_eq)
    with that assms show False by simp
  qed
  then show ?thesis
    using f assms(1) by (auto simp: round_half_even_div_def Let_def)
qed

lemma round_half_even_bounds:
  assumes "of_int lo \<le> q" and "q \<le> of_int hi"
  shows "lo \<le> round_half_even q \<and> round_half_even q \<le> hi"
proof -
  obtain a b where ab: "quotient_of q = (a, b)"
    by (cases "quotient_of q")
  then have b: "0 < b" and q: "q = of_int a / of_int b"
    using quotient_of_denom_pos quotient_of_div by blast+
  from assms b have "of_int lo * of_int b \<le> (of_int a :: rat)"
    and "(of_int a :: rat) \<le> of_int hi * of_int b"
    by (simp_all add: q pos_le_divide_eq pos_divide_le_eq)
  then have "lo * b \<le> a" and "a \<le> hi * b"
    by (metis of_int_le_iff of_int_mult)+
  with b show ?thesis
    by (simp add: round_half_even_def ab round_half_even_div_lower round_half_even_div_upper)
qed


subsection \<open>The shape of a converted float\<close>

lemma pow2_pos: "0 < pow2 k"
  by (simp add: pow2_def)

lemma to_double_pos_shape:
  assumes "0 \<le> a" and "0 < b"
  shows "to_double_pos a b = PosInf \<or> (\<exists>v. to_double_pos a b = Finite v \<and> 0 \<le> v)"
proof -
  have "0 \<le> round_half_even_div a (b * 2 ^ n)" for n
    using assms by (intro round_half_even_div_lower) simp_all
  moreover have "0 \<le> round_half_even_div (a * 2 ^ n) b" for n
    using assms by (intro round_half_even_div_lower) simp_all
  ultimately show ?thesis
    using pow2_pos by (auto simp: to_double_pos_def Let_def less_imp_le)
qed

lemma quotient_of_sign:
  assumes "quotient_of q = (a, b)"
  shows "0 < b" and "(0 < a) = (0 < q)" and "(a = 0) = (q = 0)"
proof -
  show b: "0 < b"
    using assms by (rule quotient_of_denom_pos)
  have q: "q = of_int a / of_int b"
    using assms by (rule quotient_of_div)
  show "(0 < a) = (0 < q)"
    using b by (simp add: q zero_less_divide_iff)
  show "(a = 0) = (q = 0)"
    using b by (simp add: q)
qed

lemma to_double_nonneg:
  assumes "0 \<le> q"
  shows "to_double q = PosInf \<or> (\<exists>v. to_double q = Finite v \<and> 0 \<le> v)"
proof -
  obtain a b where ab: "quotient_of q = (a, b)"
    by (cases "quotient_of q")
  note s = quotient_of_sign[OF ab]
  from assms s have "0 \<le> a"
    by (metis less_le not_le)
  then show ?thesis
    using to_double_pos_shape[of a b] s(1) by (auto simp: to_double_def ab)
qed

lemma to_double_nonpos:
  assumes "q \<le> 0"
  shows "to_double q = NegInf \<or> (\<exists>v. to_double q = Finite v \<and> v \<le> 0)"
proof -
  obtain a b where ab: "quotient_of q = (a, b)"
    by (cases "quotient_of q")
  note s = quotient_of_sign[OF ab]
  from assms s have "a \<le> 0"
    by (metis less_le not_le)
  then show ?thesis
    using to_double_pos_shape[of "- a" b] s(1) by (auto simp: to_double_def ab fl_neg_def)
qed

lemma to_double_not_NaN: "to_double q \<noteq> NaN"
  using to_double_nonneg[of q] to_double_nonpos[of q] by (cases "0 \<le> q") auto

lemma to_double_tenths_all:
  "list_all (\<lambda>k. case to_double (of_int k / 10) of Finite r \<Rightarrow> 0 \<le> r \<and> r \<le> 5 | _ \<Rightarrow> False)
     [0..50]"
  by code_simp

lemma to_double_tenths:
  assumes "0 \<le> k" and "k \<le> 50"
  shows "\<exists>r. to_double (of_int k / 10) = Finite r \<and> 0 \<le> r \<and> r \<le> 5"
proof -
  from assms have "k \<in> set [0..50]" by simp
  with to_double_tenths_all
  have "case to_double (of_int k / 10) of Finite r \<Rightarrow> 0 \<le> r \<and> r \<le> 5 | _ \<Rightarrow> False"
    unfolding list_all_iff by blast
  then show ?thesis
    by (cases "to_double (of_int k / 10)") simp_all
qed

subsection \<open>Clamping and rounding a rating\<close>

text \<open>The last three steps of \<^verbatim>\<open>parse_rating\<close>, on the float \<open>val\<close>.\<close>

lemma clamp_shape:
  assumes "val \<noteq> NaN"
  shows "\<exists>q. (if fl_lt (Finite 5) (if fl_lt val (Finite 0) then Finite 0 else val)
              then Finite 5 else (if fl_lt val (Finite 0) then Finite 0 else val)) = Finite q
             \<and> 0 \<le> q \<and> q \<le> 5"
  using assms by (cases val) auto

lemma py_round1_clamped:
  assumes "0 \<le> q" and "q \<le> 5"
  shows "\<exists>k. 0 \<le> k \<and> k \<le> 50 \<and> py_round1 (Finite q) = to_double (of_int k / 10)"
proof -
  have "0 \<le> round_half_even (q * 10) \<and> round_half_even (q * 10) \<le> 50"
    using assms by (intro round_half_even_bounds) simp_all
  then show ?thesis
    by (auto simp: py_round1_def)
qed

lemma parse_rating_Some:
  assumes "parse_rating s = Inr (Some v)"
  shows "\<exists>k. 0 \<le> k \<and> k \<le> 50 \<and> v = to_double (of_int k / 10)"
proof -
  from assms obtain g d where "money_search (strip s) = Some g" and d: "Decimal g = Inr d"
    and v: "v = py_round1
        (if fl_lt (Finite 5) (if fl_lt (to_double d) (Finite 0) then Finite 0 else to_double d)
         then Finite 5
         else (if fl_lt (to_double d) (Finite 0) then Finite 0 else to_double d))"
    by (auto simp: parse_rating_def Let_def split: if_splits option.splits sum.splits)
  from clamp_shape[OF to_double_not_NaN[of d]] obtain q
    where q: "(if fl_lt (Finite 5) (if fl_lt (to_double d) (Finite 0) then Finite 0 else to_double d)
         then Finite 5
         else (if fl_lt (to_double d) (Finite 0) then Finite 0 else to_double d)) = Finite q"
      and "0 \<le> q" and "q \<le> 5"
    by blast
  have "v = py_round1 (Finite q)"
    by (simp only: v q)
  with \<open>0 \<le> q\<close> \<open>q \<le> 5\<close> show ?thesis
    using py_round1_clamped[of q] by blast
qed


subsection \<open>Out-of-range ratings\<close>

lemma bit_length_nonneg: "0 \<le> bit_length n"
  by (induction n rule: bit_length.induct) (subst bit_length.simps, simp)

lemma bit_length_bounds:
  "0 < n \<Longrightarrow> 1 \<le> bit_length n \<and> 2 ^ nat (bit_length n - 1) \<le> n \<and> n < 2 ^ nat (bit_length n)"
proof (induction n rule: bit_length.induct)
  case (1 n)
  have bl: "bit_length n = 1 + bit_length (n div 2)"
    using "1.prems" by (subst bit_length.simps) simp
  show ?case
  proof (cases "n div 2 = 0")
    case True
    then have "n = 1" using "1.prems" by presburger
    then show ?thesis
      by (simp add: bl) (simp add: bit_length.simps)
  next
    case False
    then have pos: "0 < n div 2" using "1.prems" by presburger
    with "1.IH" "1.prems" have ih: "1 \<le> bit_length (n div 2)"
      "2 ^ nat (bit_length (n div 2) - 1) \<le> n div 2"
      "n div 2 < 2 ^ nat (bit_length (n div 2))"
      by simp_all
    define k where "k = nat (bit_length (n div 2) - 1)"
    have k: "nat (bit_length (n div 2)) = Suc k"
      using ih(1) by (simp add: k_def)
    have lo: "(2::int) ^ Suc k \<le> n"
    proof -
      have "(2::int) ^ Suc k = 2 * 2 ^ k" by simp
      also have "\<dots> \<le> 2 * (n div 2)" using ih(2) by (simp add: k_def)
      also have "\<dots> \<le> n" by presburger
      finally show ?thesis .
    qed
    have hi: "n < 2 ^ Suc (Suc k)"
    proof -
      have "n div 2 + 1 \<le> 2 ^ Suc k" using ih(3) by (simp add: k)
      then have "2 * (n div 2) + 2 \<le> 2 * 2 ^ Suc k" by simp
      moreover have "n < 2 * (n div 2) + 2" by presburger
      ultimately show ?thesis by simp
    qed
    have "nat (bit_length n - 1) = Suc k" "nat (bit_length n) = Suc (Suc k)"
      using ih(1) by (simp_all add: bl k_def)
    with lo hi ih(1) show ?thesis
      by (simp add: bl)
  qed
qed

lemma floor_log2_lower:
  assumes "0 < a" and "0 < b" and "0 \<le> floor_log2 a b"
  shows "b * 2 ^ nat (floor_log2 a b) \<le> a"
proof (cases "scale_le b (bit_length a - bit_length b) a")
  case True
  with assms(3) show ?thesis
    by (simp add: floor_log2_def Let_def scale_le_def split: if_splits)
next
  case False
  then have e: "floor_log2 a b = bit_length a - bit_length b - 1"
    by (simp add: floor_log2_def Let_def)
  note A = bit_length_bounds[OF assms(1)] and B = bit_length_bounds[OF assms(2)]
  define j where "j = nat (bit_length a - bit_length b - 1)"
  define kb where "kb = nat (bit_length b)"
  have ka: "nat (bit_length a - 1) = kb + j"
    using assms(3) B e unfolding j_def kb_def by linarith
  have "b * 2 ^ j \<le> 2 ^ kb * 2 ^ j"
    using B by (intro mult_right_mono) (simp_all add: kb_def)
  also have "\<dots> = 2 ^ (kb + j)"
    by (simp add: power_add)
  also have "\<dots> \<le> a"
    using A ka by simp
  finally show ?thesis
    by (simp add: e j_def)
qed


lemma to_double_pos_ge5:
  assumes "0 < b" and "5 * b \<le> a"
  shows "to_double_pos a b = PosInf \<or> (\<exists>v. to_double_pos a b = Finite v \<and> 5 \<le> v)"
proof -
  have a: "0 < a" using assms by simp
  define p where "p = max (floor_log2 a b) (- 1022) - 52"
  define m where "m = (if 0 \<le> p then round_half_even_div a (b * 2 ^ nat p)
               else round_half_even_div (a * 2 ^ nat (- p)) b)"
  have eq: "to_double_pos a b =
      (if 971 < p \<or> (p = 971 \<and> m = 2 ^ 53) then PosInf else Finite (of_int m * pow2 p))"
    unfolding to_double_pos_def Let_def p_def m_def ..
  have ge: "5 \<le> of_int m * pow2 p"
  proof (cases "0 \<le> p")
    case True
    then have e: "floor_log2 a b = p + 52"
      unfolding p_def by linarith
    then have e0: "0 \<le> floor_log2 a b"
      using True by linarith
    have "b * 2 ^ nat (floor_log2 a b) \<le> a"
      using floor_log2_lower[OF a assms(1) e0] .
    moreover have "nat (floor_log2 a b) = nat p + 52"
      using True e by linarith
    ultimately have "b * 2 ^ (nat p + 52) \<le> a"
      by simp
    moreover have "b * 2 ^ (nat p + 52) = 2 ^ 52 * (b * 2 ^ nat p)"
      by (simp only: power_add) (simp only: mult_ac)
    ultimately have "2 ^ 52 * (b * 2 ^ nat p) \<le> a"
      by simp
    moreover have "0 < b * 2 ^ nat p"
      using assms(1) by simp
    ultimately have "2 ^ 52 \<le> round_half_even_div a (b * 2 ^ nat p)"
      by (intro round_half_even_div_lower)
    then have m52: "2 ^ 52 \<le> m"
      using True by (simp only: m_def if_True)
    have "(5::rat) \<le> 2 ^ 52 * 1" by simp
    also have "\<dots> \<le> 2 ^ 52 * 2 ^ nat p"
      by (intro mult_left_mono) simp_all
    also have "\<dots> \<le> of_int m * 2 ^ nat p"
    proof (intro mult_right_mono)
      have "(of_int (2 ^ 52) :: rat) \<le> of_int m"
        using m52 by (simp only: of_int_le_iff)
      then show "(2::rat) ^ 52 \<le> of_int m" by simp
    qed simp
    finally show ?thesis
      using True by (simp only: pow2_def if_True)
  next
    case False
    have "(5 * 2 ^ nat (- p)) * b \<le> a * 2 ^ nat (- p)"
      using assms(2) by simp
    then have "5 * 2 ^ nat (- p) \<le> round_half_even_div (a * 2 ^ nat (- p)) b"
      using assms(1) by (intro round_half_even_div_lower)
    then have m5: "5 * 2 ^ nat (- p) \<le> m"
      using False by (simp only: m_def if_False)
    have "(of_int (5 * 2 ^ nat (- p)) :: rat) \<le> of_int m"
      using m5 by (simp only: of_int_le_iff)
    then have "(5::rat) * 2 ^ nat (- p) \<le> of_int m"
      by simp
    then have "5 \<le> of_int m / (2::rat) ^ nat (- p)"
      by (simp add: pos_le_divide_eq)
    then show ?thesis
      using False by (simp add: pow2_def)
  qed
  show ?thesis
    unfolding eq using ge by simp
qed

lemma to_double_ge5:
  assumes "5 \<le> q"
  shows "to_double q = PosInf \<or> (\<exists>v. to_double q = Finite v \<and> 5 \<le> v)"
proof -
  obtain a b where ab: "quotient_of q = (a, b)"
    by (cases "quotient_of q")
  note s = quotient_of_sign[OF ab]
  have q: "q = of_int a / of_int b"
    using ab by (rule quotient_of_div)
  from assms s(1) have "(5::rat) * of_int b \<le> of_int a"
    by (simp add: q pos_le_divide_eq)
  then have "5 * b \<le> a"
    by (metis of_int_le_iff of_int_mult of_int_numeral)
  with s(1) have "0 < a" by simp
  with to_double_pos_ge5[OF s(1) \<open>5 * b \<le> a\<close>] show ?thesis
    by (simp add: to_double_def ab)
qed

lemma py_round1_five: "py_round1 (Finite 5) = Finite 5"
  by code_simp

lemma py_round1_zero: "py_round1 (Finite 0) = Finite 0"
  by code_simp

lemma clamp_high:
  assumes "val = PosInf \<or> (\<exists>v. val = Finite v \<and> 5 \<le> v)"
  shows "(if fl_lt (Finite 5) (if fl_lt val (Finite 0) then Finite 0 else val)
          then Finite 5 else (if fl_lt val (Finite 0) then Finite 0 else val)) = Finite 5"
  using assms by auto

lemma clamp_low:
  assumes "val = NegInf \<or> (\<exists>v. val = Finite v \<and> v \<le> 0)"
  shows "(if fl_lt (Finite 5) (if fl_lt val (Finite 0) then Finite 0 else val)
          then Finite 5 else (if fl_lt val (Finite 0) then Finite 0 else val)) = Finite 0"
  using assms by auto

lemma parse_rating_parsed:
  assumes "strip s \<noteq> []" and "money_search (strip s) = Some g" and "Decimal g = Inr d"
  shows "parse_rating s = Inr (Some (py_round1
        (if fl_lt (Finite 5) (if fl_lt (to_double d) (Finite 0) then Finite 0 else to_double d)
         then Finite 5
         else (if fl_lt (to_double d) (Finite 0) then Finite 0 else to_double d))))"
  using assms by (simp add: parse_rating_def Let_def)

lemma money_search_Nil: "money_search [] = None"
  by simp

lemma parse_rating_high:
  assumes "money_search (strip s) = Some g" and "Decimal g = Inr d" and "5 \<le> d"
  shows "parse_rating s = Inr (Some (Finite 5))"
proof -
  have "strip s \<noteq> []" using assms(1) by auto
  from parse_rating_parsed[OF this assms(1,2)] show ?thesis
    by (simp only: clamp_high[OF to_double_ge5[OF assms(3)]] py_round1_five)
qed

lemma parse_rating_low:
  assumes "money_search (strip s) = Some g" and "Decimal g = Inr d" and "d \<le> 0"
  shows "parse_rating s = Inr (Some (Finite 0))"
proof -
  have "strip s \<noteq> []" using assms(1) by auto
  from parse_rating_parsed[OF this assms(1,2)] show ?thesis
    by (simp only: clamp_low[OF to_double_nonpos[OF assms(3)]] py_round1_zero)
qed


lemma parse_rating_None:
  assumes "strip s = [] \<or> money_search (strip s) = None
      \<or> (\<exists>g e. money_search (strip s) = Some g \<and> Decimal g = Inl e)"
  shows "parse_rating s = Inr None"
  using assms
  by (auto simp: parse_rating_def Let_def dest: Decimal_raises)

lemma parse_rating_in_range:
  assumes "parse_rating s = Inr (Some v)"
  shows "fl_le (Finite 0) v \<and> fl_le v (Finite 5)"
proof -
  from parse_rating_Some[OF assms] obtain k
    where k: "0 \<le> k" "k \<le> 50" and v: "v = to_double (of_int k / 10)"
    by blast
  from to_double_tenths[OF k] obtain r where "v = Finite r" "0 \<le> r" "r \<le> 5"
    unfolding v by blast
  then show ?thesis by simp
qed

text \<open>
  Claim C3. Whenever \<^verbatim>\<open>parse_rating\<close> returns a float, that float is the one written
  \<open>k / 10\<close> for an integer \<open>0 \<le> k \<le> 50\<close> (at most one decimal digit) and lies in
  \<open>[0, 5]\<close>. An out-of-range number is clamped, not rejected: whenever the first numeric
  substring is a decimal numeral the parser returns a float, \<open>5.0\<close> if the numeral is at
  least 5 and \<open>0.0\<close> if it is at most 0; so \<^verbatim>\<open>7.2 out of 5\<close> gives \<open>5.0\<close> and \<^verbatim>\<open>-3\<close> gives
  \<open>0.0\<close>. Empty input, input without a numeric substring and a numeric substring that
  \<^verbatim>\<open>Decimal\<close> rejects give \<^verbatim>\<open>None\<close>.
\<close>

theorem parse_rating_clamped:
  "(\<forall>v. parse_rating s = Inr (Some v) \<longrightarrow>
       (\<exists>k. 0 \<le> k \<and> k \<le> 50 \<and> v = to_double (of_int k / 10))
       \<and> fl_le (Finite 0) v \<and> fl_le v (Finite 5))
   \<and> (\<forall>g d. money_search (strip s) = Some g \<and> Decimal g = Inr d \<longrightarrow>
         (\<exists>v. parse_rating s = Inr (Some v))
         \<and> (5 \<le> d \<longrightarrow> parse_rating s = Inr (Some (Finite 5)))
         \<and> (d \<le> 0 \<longrightarrow> parse_rating s = Inr (Some (Finite 0))))
   \<and> (strip s = [] \<or> money_search (strip s) = None
        \<or> (\<exists>g e. money_search (strip s) = Some g \<and> Decimal g = Inl e)
       \<longrightarrow> parse_rating s = Inr None)
   \<and> parse_rating ''7.2 out of 5'' = Inr (Some (Finite 5))
   \<and> parse_rating ''-3'' = Inr (Some (Finite 0))
   \<and> parse_rating [] = Inr None"
proof (intro conjI allI impI)
  fix v
  assume "parse_rating s = Inr (Some v)"
  then show "\<exists>k. 0 \<le> k \<and> k \<le> 50 \<and> v = to_double (of_int k / 10)"
    and "fl_le (Finite 0) v" and "fl_le v (Finite 5)"
    using parse_rating_Some parse_rating_in_range by blast+
next
  fix g d
  assume h: "money_search (strip s) = Some g \<and> Decimal g = Inr d"
  then have "strip s \<noteq> []" by auto
  with h show "\<exists>v. parse_rating s = Inr (Some v)"
    using parse_rating_parsed[of s g d] by blast
  show "parse_rating s = Inr (Some (Finite 5))" if "5 \<le> d"
    using h that parse_rating_high by blast
  show "parse_rating s = Inr (Some (Finite 0))" if "d \<le> 0"
    using h that parse_rating_low by blast
next
  assume "strip s = [] \<or> money_search (strip s) = None
        \<or> (\<exists>g e. money_search (strip s) = Some g \<and> Decimal g = Inl e)"
  then show "parse_rating s = Inr None"
    by (rule parse_rating_None)
next
  show "parse_rating ''7.2 out of 5'' = Inr (Some (Finite 5))"
    by code_simp
  show "parse_rating ''-3'' = Inr (Some (Finite 0))"
    by code_simp
  show "parse_rating [] = Inr None"
    by code_simp
qed

theorem parse_rating_clamped_witness:
  "parse_rating ''Rated 9.9!'' = Inr (Some (Finite 5))
   \<and> fl_le (Finite 0) (Finite 5) \<and> fl_le (Finite 5) (Finite 5)
   \<and> parse_rating ''1,5'' = Inr None"
proof -
  have m: "money_search (strip ''Rated 9.9!'') = Some ''9.9''"
    by code_simp
  have d: "Decimal ''9.9'' = Inr (99 / 10)"
    by code_simp
  have le: "(5 :: rat) \<le> 99 / 10"
    by simp
  note c = parse_rating_clamped[of "''Rated 9.9!''"]
  have hi: "parse_rating ''Rated 9.9!'' = Inr (Some (Finite 5))"
    using c m d le by blast
  have rng: "fl_le (Finite 0) (Finite 5) \<and> fl_le (Finite 5) (Finite 5)"
    using c hi by blast
  have m2: "money_search (strip ''1,5'') = Some ''1,5''"
    by code_simp
  have d2: "Decimal ''1,5'' = Inl InvalidOperation"
    by code_simp
  have "parse_rating ''1,5'' = Inr None"
    using parse_rating_clamped[of "''1,5''"] m2 d2 by blast
  then show ?thesis
    using hi rng by blast
qed



section \<open>Properties of field extraction\<close>

subsection \<open>What a returned record is made of\<close>

lemma exn_bind_Inr:
  "exn_bind m f = Inr y \<longleftrightarrow> (\<exists>x. m = Inr x \<and> f x = Inr y)"
  by (cases m) (simp_all add: exn_bind_def)

lemma exn_bind_Inl:
  "exn_bind m f = Inl e \<longleftrightarrow> m = Inl e \<or> (\<exists>x. m = Inr x \<and> f x = Inl e)"
  by (cases m) (simp_all add: exn_bind_def)

lemma parse_product_card_returns:
  assumes "(case find_optional c (product_name selectors) of
         Some name_el \<Rightarrow> get_text_content name_el
       | None \<Rightarrow> Inr []) = Inr name0"
    and "extract_value c (product_sku selectors) = Inr sku0"
    and "prices c selectors = Inr (pl, ps)"
    and "rating_and_reviews c selectors = Inr (rt, rv)"
  shows "parse_product_card c selectors =
     Inr \<lparr> sku = (if sku0 = [] then ''UNKNOWN'' else sku0), name = name0,
            price_list = pl, price_sale = ps, rating = rt, reviews_count = rv,
            product_url = find_product_url c \<rparr>"
  unfolding parse_product_card_def assms exn_bind_def Let_def
  by simp




subsection \<open>The sale price falls back on the list price\<close>



subsection \<open>The SKU sentinel\<close>



subsection \<open>When extraction returns\<close>

lemma extract_value_missing_element:
  assumes "s \<noteq> []" and "\<not> starts_with s ''@''" and "find_element c s = Inl e"
  shows "extract_value c s = Inr []"
  using assms by (simp add: extract_value_def find_optional_def safe_text_def)

lemma extract_value_missing_attribute:
  assumes "get_attribute c a = Inr None"
  shows "extract_value c (CHR ''@'' # a) = Inr []"
  using assms by (simp add: extract_value_def exn_bind_def or_empty_def strip_def)

lemma extract_value_returns:
  assumes attrs: "\<forall>a. \<exists>v. get_attribute c a = Inr v"
    and els: "\<forall>s el. find_element c s = Inr el \<longrightarrow>
        (\<exists>t. el_text el = Inr t) \<and> (\<exists>v. el_get_attribute el ''aria-label'' = Inr v)"
  shows "\<exists>t. extract_value c s = Inr t"
proof (cases "s = [] \<or> starts_with s ''@''")
  case True
  from attrs obtain v where "get_attribute c (tl s) = Inr v"
    by blast
  with True show ?thesis
    by (auto simp: extract_value_def exn_bind_def Let_def)
next
  case False
  show ?thesis
  proof (cases "find_element c s")
    case (Inl e)
    with False show ?thesis
      by (simp add: extract_value_missing_element)
  next
    case (Inr el)
    with els obtain t where "el_text el = Inr t"
      by blast
    with False Inr show ?thesis
      by (simp add: extract_value_def find_optional_def safe_text_def exn_bind_def)
  qed
qed

lemma name_returns:
  assumes els: "\<forall>s el. find_element c s = Inr el \<longrightarrow>
        (\<exists>t. el_text el = Inr t) \<and> (\<exists>v. el_get_attribute el ''aria-label'' = Inr v)"
  shows "\<exists>name0.
      (case find_optional c (product_name selectors) of
         Some name_el \<Rightarrow> get_text_content name_el
       | None \<Rightarrow> Inr []) = Inr name0
      \<and> ((\<exists>e. find_element c (product_name selectors) = Inl e) \<longrightarrow> name0 = [])"
proof (cases "find_element c (product_name selectors)")
  case (Inl e)
  then show ?thesis
    by (simp add: find_optional_def)
next
  case (Inr el)
  with els obtain t where "el_text el = Inr t"
    by blast
  with Inr show ?thesis
    by (cases "el_text_content el")
      (simp_all add: find_optional_def get_text_content_def exn_bind_def)
qed

lemma prices_returns:
  assumes st: "extract_value c (product_sale_price selectors) = Inr st"
    and lt: "extract_value c (product_list_price selectors) = Inr lt"
  shows "\<exists>pl ps. prices c selectors = Inr (pl, ps)
      \<and> (lt = [] \<or> parse_price lt = Inr None \<longrightarrow> pl = None)"
proof -
  obtain a where a: "parse_price lt = Inr a"
    using parse_price_total[of lt] by blast
  obtain b where b: "parse_price st = Inr b"
    using parse_price_total[of st] by blast
  show ?thesis
    unfolding prices_def st lt by (simp add: exn_bind_def a b)
qed

lemma aria_fallback_returns:
  assumes els: "\<forall>s el. find_element c s = Inr el \<longrightarrow>
        (\<exists>t. el_text el = Inr t) \<and> (\<exists>v. el_get_attribute el ''aria-label'' = Inr v)"
  shows "\<exists>rt rv. aria_fallback c selectors rating0 reviews0 = Inr (rt, rv)
      \<and> ((\<exists>e. find_element c (bv_aria_source selectors) = Inl e) \<longrightarrow>
            rt = rating0 \<and> rv = reviews0)"
proof (cases "find_element c (bv_aria_source selectors)")
  case (Inl e)
  then show ?thesis
    by (simp add: aria_fallback_def find_optional_def)
next
  case (Inr a)
  with els obtain label where label: "el_get_attribute a ''aria-label'' = Inr label"
    by blast
  obtain x where x: "parse_rating (strip (or_empty label)) = Inr x"
    using parse_rating_total by blast
  obtain y where y: "parse_reviews_count (strip (or_empty label)) = Inr y"
    using parse_reviews_count_total by blast
  show ?thesis
    unfolding aria_fallback_def find_optional_def Inr
    by (simp add: label exn_bind_def Let_def x y)
qed

lemma rating_and_reviews_returns:
  assumes els: "\<forall>s el. find_element c s = Inr el \<longrightarrow>
        (\<exists>t. el_text el = Inr t) \<and> (\<exists>v. el_get_attribute el ''aria-label'' = Inr v)"
    and t: "extract_value c (product_rating selectors) = Inr t"
    and u: "extract_value c (product_reviews_count selectors) = Inr u"
  shows "\<exists>rt rv. rating_and_reviews c selectors = Inr (rt, rv)
      \<and> ((\<exists>e. find_element c (bv_aria_source selectors) = Inl e) \<longrightarrow>
            parse_rating t = Inr rt \<and> parse_reviews_count u = Inr rv)"
proof -
  obtain x where x: "parse_rating t = Inr x"
    using parse_rating_total by blast
  obtain y where y: "parse_reviews_count u = Inr y"
    using parse_reviews_count_total by blast
  have eq: "rating_and_reviews c selectors = aria_fallback c selectors x y"
    unfolding rating_and_reviews_def t u by (simp add: exn_bind_def x y)
  from aria_fallback_returns[OF els, of selectors x y] obtain rt rv
    where "aria_fallback c selectors x y = Inr (rt, rv)"
      and "(\<exists>e. find_element c (bv_aria_source selectors) = Inl e) \<longrightarrow> rt = x \<and> rv = y"
    by blast
  then show ?thesis
    unfolding eq x y by auto
qed

text \<open>
  Claim C7, as the code has it. \<^verbatim>\<open>parse_product_card\<close> does raise when the browser does:
  the attribute reads of \<^verbatim>\<open>extract_value\<close> and the text reads of \<^verbatim>\<open>_safe_text\<close> sit in no
  \<^verbatim>\<open>try\<close>, and the crawl loop catches what they raise and logs the card. On a stale card
  the function raises \<^verbatim>\<open>StaleElementReferenceException\<close>.
\<close>

theorem parse_product_card_raises_on_stale_card:
  "parse_product_card stale_card default_selectors = Inl StaleElementReferenceException"
  by code_simp

text \<open>
  Claim C7, amended. On a card whose attribute reads answer, and whose elements answer
  when their text or their \<^verbatim>\<open>aria-label\<close> is read, \<^verbatim>\<open>parse_product_card\<close> returns a
  record, for every selector configuration. A per-field failure is an empty or absent
  value of that record: a name element that is not found gives the empty name; a
  list-price text that is empty or does not parse gives no list price; without the
  fallback element, a rating text and a review text that do not parse give no rating and
  no review count. For a single field, a selector that finds no element and an attribute
  that is missing both extract the empty string.
\<close>

theorem parse_product_card_returns_without_faults:
  assumes attrs: "\<forall>a. \<exists>v. get_attribute c a = Inr v"
    and els: "\<forall>s el. find_element c s = Inr el \<longrightarrow>
        (\<exists>t. el_text el = Inr t) \<and> (\<exists>v. el_get_attribute el ''aria-label'' = Inr v)"
  shows "(\<exists>r. parse_product_card c selectors = Inr r
        \<and> ((\<exists>e. find_element c (product_name selectors) = Inl e) \<longrightarrow> name r = [])
        \<and> (\<forall>lt. extract_value c (product_list_price selectors) = Inr lt
                \<and> (lt = [] \<or> parse_price lt = Inr None)
              \<longrightarrow> price_list r = None)
        \<and> (\<forall>t u. (\<exists>e. find_element c (bv_aria_source selectors) = Inl e)
                \<and> extract_value c (product_rating selectors) = Inr t
                \<and> parse_rating t = Inr None
                \<and> extract_value c (product_reviews_count selectors) = Inr u
                \<and> parse_reviews_count u = Inr None
              \<longrightarrow> rating r = None \<and> reviews_count r = None))
    \<and> (\<forall>s e. s \<noteq> [] \<and> \<not> starts_with s ''@'' \<and> find_element c s = Inl e
          \<longrightarrow> extract_value c s = Inr [])
    \<and> (\<forall>a. get_attribute c a = Inr None \<longrightarrow> extract_value c (CHR ''@'' # a) = Inr [])"
proof (intro conjI)
  from name_returns[OF els, of selectors] obtain name0
    where n: "(case find_optional c (product_name selectors) of
         Some name_el \<Rightarrow> get_text_content name_el
       | None \<Rightarrow> Inr []) = Inr name0"
      and n0: "(\<exists>e. find_element c (product_name selectors) = Inl e) \<longrightarrow> name0 = []"
    by blast
  from extract_value_returns[OF attrs els] obtain sku0 st lt t u
    where s: "extract_value c (product_sku selectors) = Inr sku0"
      and st: "extract_value c (product_sale_price selectors) = Inr st"
      and lt: "extract_value c (product_list_price selectors) = Inr lt"
      and t: "extract_value c (product_rating selectors) = Inr t"
      and u: "extract_value c (product_reviews_count selectors) = Inr u"
    by metis
  from prices_returns[OF st lt] obtain pl ps
    where p: "prices c selectors = Inr (pl, ps)"
      and p0: "lt = [] \<or> parse_price lt = Inr None \<longrightarrow> pl = None"
    by blast
  from rating_and_reviews_returns[OF els t u] obtain rt rv
    where q: "rating_and_reviews c selectors = Inr (rt, rv)"
      and q0: "(\<exists>e. find_element c (bv_aria_source selectors) = Inl e) \<longrightarrow>
            parse_rating t = Inr rt \<and> parse_reviews_count u = Inr rv"
    by blast
  let ?r = "\<lparr> sku = (if sku0 = [] then ''UNKNOWN'' else sku0), name = name0,
            price_list = pl, price_sale = ps, rating = rt, reviews_count = rv,
            product_url = find_product_url c \<rparr>"
  have r: "parse_product_card c selectors = Inr ?r"
    using n s p q by (rule parse_product_card_returns)
  have a: "(\<exists>e. find_element c (product_name selectors) = Inl e) \<longrightarrow> name ?r = []"
    using n0 by simp
  have b: "\<forall>lt'. extract_value c (product_list_price selectors) = Inr lt'
                \<and> (lt' = [] \<or> parse_price lt' = Inr None)
              \<longrightarrow> price_list ?r = None"
    using p0 lt by auto
  have d: "\<forall>t' u'. (\<exists>e. find_element c (bv_aria_source selectors) = Inl e)
                \<and> extract_value c (product_rating selectors) = Inr t'
                \<and> parse_rating t' = Inr None
                \<and> extract_value c (product_reviews_count selectors) = Inr u'
                \<and> parse_reviews_count u' = Inr None
              \<longrightarrow> rating ?r = None \<and> reviews_count ?r = None"
    using q0 t u by auto
  from r a b d
  show "\<exists>r. parse_product_card c selectors = Inr r
        \<and> ((\<exists>e. find_element c (product_name selectors) = Inl e) \<longrightarrow> name r = [])
        \<and> (\<forall>lt. extract_value c (product_list_price selectors) = Inr lt
                \<and> (lt = [] \<or> parse_price lt = Inr None)
              \<longrightarrow> price_list r = None)
        \<and> (\<forall>t u. (\<exists>e. find_element c (bv_aria_source selectors) = Inl e)
                \<and> extract_value c (product_rating selectors) = Inr t
                \<and> parse_rating t = Inr None
                \<and> extract_value c (product_reviews_count selectors) = Inr u
                \<and> parse_reviews_count u = Inr None
              \<longrightarrow> rating r = None \<and> reviews_count r = None)"
    by (intro exI[of _ ?r] conjI)
next
  show "\<forall>s e. s \<noteq> [] \<and> \<not> starts_with s ''@'' \<and> find_element c s = Inl e
          \<longrightarrow> extract_value c s = Inr []"
    using extract_value_missing_element by blast
next
  show "\<forall>a. get_attribute c a = Inr None \<longrightarrow> extract_value c (CHR ''@'' # a) = Inr []"
    using extract_value_missing_attribute by blast
qed

theorem parse_product_card_returns_without_faults_witness:
  "(\<forall>a. get_attribute list_price_card a = Inr None
        \<or> get_attribute list_price_card a = Inr (Some ''$10.00''))
   \<and> (\<forall>s. find_element list_price_card s = Inl NoSuchElementException)
   \<and> (\<exists>r. parse_product_card list_price_card default_selectors = Inr r
        \<and> name r = [] \<and> rating r = None \<and> reviews_count r = None)
   \<and> extract_value list_price_card (product_name default_selectors) = Inr []
   \<and> extract_value list_price_card ''@data-oe-item-sale-price'' = Inr []"
proof -
  have attrs: "\<forall>a. get_attribute list_price_card a = Inr None
        \<or> get_attribute list_price_card a = Inr (Some ''$10.00'')"
    by (simp add: list_price_card_def)
  have els: "\<forall>s. find_element list_price_card s = Inl NoSuchElementException"
    by (simp add: list_price_card_def no_element_def)
  have h1: "\<forall>a. \<exists>v. get_attribute list_price_card a = Inr v"
    using attrs by metis
  have h2: "\<forall>s el. find_element list_price_card s = Inr el \<longrightarrow>
        (\<exists>t. el_text el = Inr t) \<and> (\<exists>v. el_get_attribute el ''aria-label'' = Inr v)"
    using els by simp
  note c = parse_product_card_returns_without_faults[OF h1 h2, of default_selectors]
  have t: "extract_value list_price_card (product_rating default_selectors) = Inr []"
    by code_simp
  have u: "extract_value list_price_card (product_reviews_count default_selectors) = Inr []"
    by code_simp
  have pt: "parse_rating [] = Inr None"
    by code_simp
  have pu: "parse_reviews_count [] = Inr None"
    by code_simp
  from c obtain r where r: "parse_product_card list_price_card default_selectors = Inr r"
    and r1: "(\<exists>e. find_element list_price_card (product_name default_selectors) = Inl e)
        \<longrightarrow> name r = []"
    and r2: "\<forall>t u. (\<exists>e. find_element list_price_card (bv_aria_source default_selectors)
                    = Inl e)
                \<and> extract_value list_price_card (product_rating default_selectors) = Inr t
                \<and> parse_rating t = Inr None
                \<and> extract_value list_price_card (product_reviews_count default_selectors)
                    = Inr u
                \<and> parse_reviews_count u = Inr None
              \<longrightarrow> rating r = None \<and> reviews_count r = None"
    by blast
  from r1 els have n: "name r = []"
    by blast
  from r2 els t u pt pu have q: "rating r = None \<and> reviews_count r = None"
    by blast
  have nm: "product_name default_selectors \<noteq> []
      \<and> \<not> starts_with (product_name default_selectors) ''@''"
    by code_simp
  from c nm els
  have e1: "extract_value list_price_card (product_name default_selectors) = Inr []"
    by blast
  have "get_attribute list_price_card ''data-oe-item-sale-price'' = Inr None"
    by code_simp
  with c have e2: "extract_value list_price_card ''@data-oe-item-sale-price'' = Inr []"
    by blast
  from attrs els r n q e1 e2 show ?thesis
    by blast
qed

subsection \<open>The review count read from the fallback label\<close>

text \<open>
  Claim C1, on the code. For the card whose rating and review selectors find nothing and
  whose fallback element is labelled \<^verbatim>\<open>4.6 out of 5 stars, 812 reviews\<close>, both parsers are
  run on the label. \<^verbatim>\<open>parse_rating\<close> gives the double 4.6; \<^verbatim>\<open>parse_reviews_count\<close> takes the
  first run of digits in the label, which is the \<^verbatim>\<open>4\<close> of the rating, and gives 4, not 812.
\<close>

theorem aria_fallback_reviews_count_is_first_digit_run:
  "parse_product_card fallback_card default_selectors =
     Inr \<lparr> sku = ''UNKNOWN'', name = [], price_list = None, price_sale = None,
           rating = Some (to_double (46 / 10)), reviews_count = Some 4,
           product_url = [] \<rparr>
   \<and> parse_rating ''4.6 out of 5 stars, 812 reviews'' = Inr (Some (to_double (46 / 10)))
   \<and> parse_reviews_count ''4.6 out of 5 stars, 812 reviews'' = Inr (Some 4)
   \<and> to_double (46 / 10) = Finite (5179139571476070 / 2 ^ 50)"
  by code_simp


end
